theory Spec2Isabelle
  imports Main "HOL-Library.Word"
begin

unbundle bit_operations_syntax

section \<open>Data model\<close>

text \<open>Sector numbers and lengths are \<^verbatim>\<open>qint64\<close>: 64-bit words, compared as signed values.\<close>

type_synonym qint64 = "64 word"

text \<open>
  Modelled from the spec: the declarations of \<^verbatim>\<open>core/partitionrole.h\<close>,
  \<^verbatim>\<open>core/partition.h\<close>, \<^verbatim>\<open>core/partitiontable.h\<close> and \<^verbatim>\<open>fs/filesystem.h\<close> are not part
  of the sources at hand. The spec gives a partition a first and a last sector (inclusive), a
  state, a set of roles and an owned file system, and gives a partition table a type with a
  sentinel "none". Only the enumerators that \<^verbatim>\<open>resizeoperation.cpp\<close> tests are told apart
  by the code: \<^verbatim>\<open>PartitionRole::Extended\<close>, \<^verbatim>\<open>PartitionRole::Luks\<close>,
  \<^verbatim>\<open>Partition::State::New\<close>, \<^verbatim>\<open>Partition::State::Copy\<close>, \<^verbatim>\<open>TableType::none\<close>,
  \<^verbatim>\<open>FileSystem::Type::Lvm2_PV\<close>, \<^verbatim>\<open>Luks\<close>, \<^verbatim>\<open>Luks2\<close> and \<^verbatim>\<open>FileSystem::cmdSupportNone\<close>.
\<close>

datatype PartitionRole = Primary | Extended | Logical | Unallocated | Luks | Lvm_Lv

datatype State = StateNone | New | Copy | Restore

datatype TableType = unknownTableType | msdos | gpt | none

datatype FileSystemType = Unknown | Ext4 | LinuxSwap | Apfs | Luks_fs | Luks2 | Lvm2_PV

datatype CommandSupportType =
  cmdSupportNone | cmdSupportCore | cmdSupportFileSystem | cmdSupportBackend

text \<open>
  The capability surface of a file system that the eligibility predicates read.
  \<^verbatim>\<open>innerFS\<close> is the type of the file system inside an encrypted container
  (\<^verbatim>\<open>FS::luks::innerFS()->type()\<close>), \<open>None\<close> for a null pointer.
\<close>

record FileSystem =
  fs_type :: FileSystemType
  supportGrow :: CommandSupportType
  supportShrink :: CommandSupportType
  supportMove :: CommandSupportType
  supportGrowOnline :: bool
  supportShrinkOnline :: bool
  innerFS :: "FileSystemType option"

text \<open>
  \<^verbatim>\<open>partitionTableType\<close> stands for \<^verbatim>\<open>p->partitionTable()->type()\<close>.
\<close>

record Partition =
  firstSector :: qint64
  lastSector :: qint64
  roles :: "PartitionRole set"
  state :: State
  isMounted :: bool
  hasChildren :: bool
  fileSystem :: FileSystem
  partitionTableType :: TableType

text \<open>\<^verbatim>\<open>PartitionRole::has\<close>: is the role among the partition's roles?\<close>

definition has :: "PartitionRole set \<Rightarrow> PartitionRole \<Rightarrow> bool" where
  "has rs r = (r \<in> rs)"

text \<open>
  Modelled from the spec: \<^verbatim>\<open>Partition::length()\<close> (\<^verbatim>\<open>core/partition.h\<close>, absent). First and
  last sector are inclusive, so the length is \<^verbatim>\<open>lastSector() - firstSector() + 1\<close>.
\<close>

definition length_p :: "Partition \<Rightarrow> qint64" where
  "length_p p = lastSector p - firstSector p + 1"

text \<open>
  The four job primitives (spec, section 6). The device and partition references of a job are
  left out: one operation has one target device and one partition.
  \<^verbatim>\<open>SetPartGeometryJob newStart length\<close>, \<^verbatim>\<open>ResizeFileSystemJob newLength\<close>,
  \<^verbatim>\<open>MoveFileSystemJob newStart\<close>.
\<close>

datatype Job =
  CheckFileSystemJob
| SetPartGeometryJob qint64 qint64
| ResizeFileSystemJob qint64
| MoveFileSystemJob qint64

text \<open>
  Jobs are objects with an identity: the member of the operation that points to them.
  \<^verbatim>\<open>Temporary\<close> is the unnamed \<^verbatim>\<open>SetPartGeometryJob\<close> that \<^verbatim>\<open>move\<close> and \<^verbatim>\<open>grow\<close>
  build on the stack to roll back.
\<close>

datatype JobSlot =
  CheckOriginal | MoveExtended | ShrinkResize | ShrinkSetGeom | MoveSetGeom
| MoveFileSystem | GrowSetGeom | GrowResize | CheckResized | Temporary

text \<open>\<^verbatim>\<open>Operation::OperationStatus\<close> (\<^verbatim>\<open>ops/operation.h\<close>).\<close>

datatype OperationStatus =
  StatusNone | StatusPending | StatusRunning
| StatusFinishedSuccess | StatusFinishedWarning | StatusError

text \<open>
  The members of a \<^verbatim>\<open>ResizeOperation\<close>. A job pointer is a \<open>Job option\<close>, \<open>None\<close> for
  \<^verbatim>\<open>nullptr\<close>. \<^verbatim>\<open>jobs\<close> is the job list of the base class, in the order of \<^verbatim>\<open>addJob\<close>.
\<close>

record ResizeOperation =
  m_OrigFirstSector :: qint64
  m_OrigLastSector :: qint64
  m_NewFirstSector :: qint64
  m_NewLastSector :: qint64
  m_CheckOriginalJob :: "Job option"
  m_MoveExtendedJob :: "Job option"
  m_ShrinkResizeJob :: "Job option"
  m_ShrinkSetGeomJob :: "Job option"
  m_MoveSetGeomJob :: "Job option"
  m_MoveFileSystemJob :: "Job option"
  m_GrowResizeJob :: "Job option"
  m_GrowSetGeomJob :: "Job option"
  m_CheckResizedJob :: "Job option"
  jobs :: "(JobSlot \<times> Job) list"
  status :: OperationStatus

text \<open>
  Modelled from the spec: \<^verbatim>\<open>origLength()\<close> and \<^verbatim>\<open>newLength()\<close> are declared in
  \<^verbatim>\<open>ops/resizeoperation.h\<close>, which is absent; sector ranges are inclusive.
\<close>

definition origLength :: "ResizeOperation \<Rightarrow> qint64" where
  "origLength op = m_OrigLastSector op - m_OrigFirstSector op + 1"

definition newLength :: "ResizeOperation \<Rightarrow> qint64" where
  "newLength op = m_NewLastSector op - m_NewFirstSector op + 1"

section \<open>The resize action\<close>

text \<open>
  Modelled from the spec: the enumeration \<^verbatim>\<open>ResizeOperation::ResizeAction\<close> is declared in
  \<^verbatim>\<open>ops/resizeoperation.h\<close>, which is absent. The spec calls it a bitmask of the four flags
  Grow, Shrink, MoveLeft and MoveRight with the four move-and-resize pairings; each flag is one
  bit and a pairing is the bitwise or of its two flags.
\<close>

type_synonym ResizeAction = "32 word"

definition None_action :: ResizeAction where "None_action = 0"
definition MoveLeft :: ResizeAction where "MoveLeft = 1"
definition MoveRight :: ResizeAction where "MoveRight = 2"
definition Grow :: ResizeAction where "Grow = 4"
definition Shrink :: ResizeAction where "Shrink = 8"
definition MoveLeftGrow :: ResizeAction where "MoveLeftGrow = 5"
definition MoveRightGrow :: ResizeAction where "MoveRightGrow = 6"
definition MoveLeftShrink :: ResizeAction where "MoveLeftShrink = 9"
definition MoveRightShrink :: ResizeAction where "MoveRightShrink = 10"

text \<open>\<^verbatim>\<open>ResizeOperation::resizeAction\<close>: four tests in sequence on one local variable.\<close>

definition resizeAction :: "ResizeOperation \<Rightarrow> ResizeAction" where
  "resizeAction op =
    (let action = None_action;
         action = (if origLength op <s newLength op then Grow else action);
         action = (if newLength op <s origLength op then Shrink else action);
         action = (if m_OrigFirstSector op <s m_NewFirstSector op
                   then action OR MoveRight else action);
         action = (if m_NewFirstSector op <s m_OrigFirstSector op
                   then action OR MoveLeft else action)
     in action)"

section \<open>Eligibility predicates\<close>

text \<open>
  \<^verbatim>\<open>ResizeOperation::isLVMPVinNewlyVG\<close>. \<^verbatim>\<open>LvmDevice::s_DirtyPVs\<close> is a process-wide list of
  partition pointers; it is passed in, and membership of the pointer is membership of the
  partition.
\<close>

definition isLVMPVinNewlyVG :: "Partition set \<Rightarrow> Partition \<Rightarrow> bool" where
  "isLVMPVinNewlyVG s_DirtyPVs p =
    (if fs_type (fileSystem p) = Lvm2_PV then
       (if p \<in> s_DirtyPVs then True else False)
     else if fs_type (fileSystem p) = Luks_fs \<or> fs_type (fileSystem p) = Luks2 then
       (case innerFS (fileSystem p) of
          None \<Rightarrow> False
        | Some t \<Rightarrow> if t = Lvm2_PV then (if p \<in> s_DirtyPVs then True else False) else False)
     else False)"

text \<open>\<^verbatim>\<open>ResizeOperation::canGrow\<close>; the argument is a pointer that may be null.\<close>

definition canGrow :: "Partition set \<Rightarrow> Partition option \<Rightarrow> bool" where
  "canGrow s_DirtyPVs ptr =
    (case ptr of
       None \<Rightarrow> False
     | Some p \<Rightarrow>
         if partitionTableType p = none then False
         else if isLVMPVinNewlyVG s_DirtyPVs p then False
         else if state p = New \<and> \<not> has (roles p) Luks then True
         else if isMounted p then supportGrowOnline (fileSystem p)
         else supportGrow (fileSystem p) \<noteq> cmdSupportNone)"

text \<open>\<^verbatim>\<open>ResizeOperation::canShrink\<close>.\<close>

definition canShrink :: "Partition set \<Rightarrow> Partition option \<Rightarrow> bool" where
  "canShrink s_DirtyPVs ptr =
    (case ptr of
       None \<Rightarrow> False
     | Some p \<Rightarrow>
         if partitionTableType p = none then False
         else if isLVMPVinNewlyVG s_DirtyPVs p then False
         else if state p = New \<and> \<not> has (roles p) Luks then True
         else if state p = Copy then False
         else if isMounted p then supportShrinkOnline (fileSystem p)
         else supportShrink (fileSystem p) \<noteq> cmdSupportNone)"

text \<open>\<^verbatim>\<open>ResizeOperation::canMove\<close>.\<close>

definition canMove :: "Partition set \<Rightarrow> Partition option \<Rightarrow> bool" where
  "canMove s_DirtyPVs ptr =
    (case ptr of
       None \<Rightarrow> False
     | Some p \<Rightarrow>
         if partitionTableType p = none then False
         else if isLVMPVinNewlyVG s_DirtyPVs p then False
         else if state p = New then (if has (roles p) Luks then False else True)
         else if isMounted p then False
         else if has (roles p) Extended \<and> hasChildren p then False
         else supportMove (fileSystem p) \<noteq> cmdSupportNone)"

section \<open>Construction of the job list\<close>

text \<open>\<^verbatim>\<open>Operation::addJob\<close>: the job is appended to the operation's list.\<close>

definition addJob :: "JobSlot \<Rightarrow> Job \<Rightarrow> ResizeOperation \<Rightarrow> ResizeOperation" where
  "addJob slot j op = op\<lparr>jobs := jobs op @ [(slot, j)]\<rparr>"

text \<open>
  The three blocks of the constructor's body that compose the shrink, move and grow jobs of
  a partition that is not extended; each creates its two jobs, stores them in their members
  and adds them to the list. \<open>p\<close> is the partition at construction.
\<close>

definition addShrinkJobs :: "Partition \<Rightarrow> ResizeOperation \<Rightarrow> ResizeOperation" where
  "addShrinkJobs p op =
    (if resizeAction op AND Shrink \<noteq> 0 then
       (let r = ResizeFileSystemJob (newLength op);
            g = SetPartGeometryJob (firstSector p) (newLength op);
            op = op\<lparr>m_ShrinkResizeJob := Some r, m_ShrinkSetGeomJob := Some g\<rparr>
        in addJob ShrinkSetGeom g (addJob ShrinkResize r op))
     else op)"

definition addMoveJobs :: "Partition \<Rightarrow> ResizeOperation \<Rightarrow> ResizeOperation" where
  "addMoveJobs p op =
    (if resizeAction op AND MoveLeft \<noteq> 0 \<or> resizeAction op AND MoveRight \<noteq> 0 then
       (let currentLength =
              (if resizeAction op AND Shrink \<noteq> 0 then newLength op else length_p p);
            g = SetPartGeometryJob (m_NewFirstSector op) currentLength;
            m = MoveFileSystemJob (m_NewFirstSector op);
            op = op\<lparr>m_MoveSetGeomJob := Some g, m_MoveFileSystemJob := Some m\<rparr>
        in addJob MoveFileSystem m (addJob MoveSetGeom g op))
     else op)"

definition addGrowJobs :: "ResizeOperation \<Rightarrow> ResizeOperation" where
  "addGrowJobs op =
    (if resizeAction op AND Grow \<noteq> 0 then
       (let g = SetPartGeometryJob (m_NewFirstSector op) (newLength op);
            r = ResizeFileSystemJob (newLength op);
            op = op\<lparr>m_GrowSetGeomJob := Some g, m_GrowResizeJob := Some r\<rparr>
        in addJob GrowResize r (addJob GrowSetGeom g op))
     else op)"

text \<open>The member initialisers of the constructor.\<close>

definition initialised :: "Partition \<Rightarrow> qint64 \<Rightarrow> qint64 \<Rightarrow> ResizeOperation" where
  "initialised p newfirst newlast =
    \<lparr> m_OrigFirstSector = firstSector p,
      m_OrigLastSector = lastSector p,
      m_NewFirstSector = newfirst,
      m_NewLastSector = newlast,
      m_CheckOriginalJob = Some CheckFileSystemJob,
      m_MoveExtendedJob = None,
      m_ShrinkResizeJob = None,
      m_ShrinkSetGeomJob = None,
      m_MoveSetGeomJob = None,
      m_MoveFileSystemJob = None,
      m_GrowResizeJob = None,
      m_GrowSetGeomJob = None,
      m_CheckResizedJob = None,
      jobs = [],
      status = StatusNone \<rparr>"

text \<open>
  The constructor \<^verbatim>\<open>ResizeOperation::ResizeOperation\<close>. \<^verbatim>\<open>CheckOperation::canCheck\<close> is
  defined in \<^verbatim>\<open>ops/checkoperation.cpp\<close>, which is absent: it is the parameter \<open>canCheck\<close>,
  a predicate on the partition.
\<close>

definition ResizeOperation_ctor ::
  "(Partition \<Rightarrow> bool) \<Rightarrow> Partition \<Rightarrow> qint64 \<Rightarrow> qint64 \<Rightarrow> ResizeOperation" where
  "ResizeOperation_ctor canCheck p newfirst newlast =
    (let op = initialised p newfirst newlast;
         op = (if canCheck p then addJob CheckOriginal CheckFileSystemJob op else op)
     in
       if has (roles p) Extended then
         (let j = SetPartGeometryJob (m_NewFirstSector op) (newLength op);
              op = op\<lparr>m_MoveExtendedJob := Some j\<rparr>
          in addJob MoveExtended j op)
       else
         (let op = addShrinkJobs p op;
              op = addMoveJobs p op;
              op = addGrowJobs op;
              op = op\<lparr>m_CheckResizedJob := Some CheckFileSystemJob\<rparr>
          in if canCheck p then addJob CheckResized CheckFileSystemJob op else op))"

section \<open>Preview and undo\<close>

text \<open>
  The preview model: the partition the operation refers to and the device it lives on.
  \<^verbatim>\<open>Operation::removePreviewPartition\<close> and \<^verbatim>\<open>Operation::insertPreviewPartition\<close> are
  defined in \<^verbatim>\<open>ops/operation.cpp\<close>, which is absent: they are the parameters \<open>removePP\<close>
  and \<open>insertPP\<close>, which take the device and the partition as it is at the call and give the
  device back. They take the partition out of, and put it into, the device's table; the setters
  of \<^verbatim>\<open>preview\<close> and \<^verbatim>\<open>undo\<close> are the only writes to the partition's sectors.
\<close>

record 'd PreviewModel =
  pm_partition :: Partition
  pm_device :: 'd

definition setFirstSector :: "qint64 \<Rightarrow> 'd PreviewModel \<Rightarrow> 'd PreviewModel" where
  "setFirstSector v m = m\<lparr>pm_partition := (pm_partition m)\<lparr>firstSector := v\<rparr>\<rparr>"

definition setLastSector :: "qint64 \<Rightarrow> 'd PreviewModel \<Rightarrow> 'd PreviewModel" where
  "setLastSector v m = m\<lparr>pm_partition := (pm_partition m)\<lparr>lastSector := v\<rparr>\<rparr>"

definition onDevice ::
  "('d \<Rightarrow> Partition \<Rightarrow> 'd) \<Rightarrow> 'd PreviewModel \<Rightarrow> 'd PreviewModel" where
  "onDevice f m = m\<lparr>pm_device := f (pm_device m) (pm_partition m)\<rparr>"

text \<open>\<^verbatim>\<open>ResizeOperation::preview\<close>.\<close>

definition preview ::
  "('d \<Rightarrow> Partition \<Rightarrow> 'd) \<Rightarrow> ('d \<Rightarrow> Partition \<Rightarrow> 'd) \<Rightarrow> ResizeOperation
     \<Rightarrow> 'd PreviewModel \<Rightarrow> 'd PreviewModel" where
  "preview removePP insertPP op m =
    (let m = (if firstSector (pm_partition m) = m_NewFirstSector op
                 \<and> lastSector (pm_partition m) = m_NewLastSector op
              then setLastSector (m_OrigLastSector op) (setFirstSector (m_OrigFirstSector op) m)
              else m);
         m = onDevice removePP m;
         m = setFirstSector (m_NewFirstSector op) m;
         m = setLastSector (m_NewLastSector op) m
     in onDevice insertPP m)"

text \<open>\<^verbatim>\<open>ResizeOperation::undo\<close>.\<close>

definition undo ::
  "('d \<Rightarrow> Partition \<Rightarrow> 'd) \<Rightarrow> ('d \<Rightarrow> Partition \<Rightarrow> 'd) \<Rightarrow> ResizeOperation
     \<Rightarrow> 'd PreviewModel \<Rightarrow> 'd PreviewModel" where
  "undo removePP insertPP op m =
    (let m = onDevice removePP m;
         m = setFirstSector (m_OrigFirstSector op) m;
         m = setLastSector (m_OrigLastSector op) m
     in onDevice insertPP m)"

section \<open>Execution\<close>

text \<open>
  What \<^verbatim>\<open>execute\<close> works on: the partition, the backend, and the child report the operation
  writes to. \<open>backend n\<close> is the outcome of the \<open>n\<close>-th job run into this report (counted
  from 0): any behaviour of the external tools is one such function. \<open>jobsRun\<close> lists the jobs
  run, in order, each with its outcome; \<open>reportLines\<close> are the lines written with
  \<^verbatim>\<open>report.line()\<close>; \<open>reportStatus\<close> is the status whose text \<^verbatim>\<open>report->setStatus\<close> records.
\<close>

record Exec =
  partition :: Partition
  backend :: "nat \<Rightarrow> bool"
  jobsRun :: "(JobSlot \<times> Job \<times> bool) list"
  reportLines :: "string list"
  reportStatus :: "OperationStatus option"

text \<open>
  Modelled from the spec: \<^verbatim>\<open>Job::run\<close> of the four primitives (\<^verbatim>\<open>jobs/*.cpp\<close>, absent).
  A job returns success or failure and reports itself; a geometry-set job that succeeds sets
  the partition's first sector and length, a failed job and the file system jobs leave the
  partition's sectors as they are.
\<close>

definition jobEffect :: "Job \<Rightarrow> bool \<Rightarrow> Partition \<Rightarrow> Partition" where
  "jobEffect j ok p =
    (case j of
       SetPartGeometryJob newStart len \<Rightarrow>
         if ok then p\<lparr>firstSector := newStart, lastSector := newStart + len - 1\<rparr> else p
     | _ \<Rightarrow> p)"

definition run :: "JobSlot \<Rightarrow> Job \<Rightarrow> Exec \<Rightarrow> bool \<times> Exec" where
  "run slot j s =
    (let ok = backend s (length (jobsRun s))
     in (ok, s\<lparr>partition := jobEffect j ok (partition s),
               jobsRun := jobsRun s @ [(slot, j, ok)]\<rparr>))"

text \<open>The condition \<^verbatim>\<open>job() && !job()->run(report)\<close>: a null job is not run.\<close>

definition setAndFails :: "JobSlot \<Rightarrow> Job option \<Rightarrow> Exec \<Rightarrow> bool \<times> Exec" where
  "setAndFails slot ptr s =
    (case ptr of
       None \<Rightarrow> (False, s)
     | Some j \<Rightarrow> (case run slot j s of (ok, s') \<Rightarrow> (\<not> ok, s')))"

text \<open>\<^verbatim>\<open>report.line() << ...\<close>\<close>

definition line :: "string \<Rightarrow> Exec \<Rightarrow> Exec" where
  "line msg s = s\<lparr>reportLines := reportLines s @ [msg]\<rparr>"

text \<open>\<^verbatim>\<open>ResizeOperation::shrink\<close>.\<close>

definition shrink :: "ResizeOperation \<Rightarrow> Exec \<Rightarrow> bool \<times> Exec" where
  "shrink op s =
    (case setAndFails ShrinkResize (m_ShrinkResizeJob op) s of
       (failed, s) \<Rightarrow>
         if failed then
           (False, line ''Resize/move failed: Could not resize file system to shrink partition.'' s)
         else
           (case setAndFails ShrinkSetGeom (m_ShrinkSetGeomJob op) s of
              (failed, s) \<Rightarrow>
                if failed then
                  (False, line ''Resize/move failed: Could not shrink partition.'' s)
                else (True, s)))"

text \<open>\<^verbatim>\<open>ResizeOperation::move\<close>.\<close>

definition move :: "ResizeOperation \<Rightarrow> Exec \<Rightarrow> bool \<times> Exec" where
  "move op s =
    (let oldStart = firstSector (partition s) in
     case setAndFails MoveSetGeom (m_MoveSetGeomJob op) s of
       (failed, s) \<Rightarrow>
         if failed then (False, line ''Moving partition failed.'' s)
         else
           (case setAndFails MoveFileSystem (m_MoveFileSystemJob op) s of
              (failed, s) \<Rightarrow>
                if failed then
                  (let s = line ''Moving the filesystem for partition failed. Rolling back.'' s in
                   case run Temporary (SetPartGeometryJob oldStart (length_p (partition s))) s of
                     (ok, s) \<Rightarrow>
                       (False,
                        if \<not> ok
                        then line ''Moving back partition to its original position failed.'' s
                        else s))
                else (True, s)))"

text \<open>\<^verbatim>\<open>ResizeOperation::grow\<close>.\<close>

definition grow :: "ResizeOperation \<Rightarrow> Exec \<Rightarrow> bool \<times> Exec" where
  "grow op s =
    (let oldLength = length_p (partition s) in
     case setAndFails GrowSetGeom (m_GrowSetGeomJob op) s of
       (failed, s) \<Rightarrow>
         if failed then (False, line ''Resize/move failed: Could not grow partition.'' s)
         else
           (case setAndFails GrowResize (m_GrowResizeJob op) s of
              (failed, s) \<Rightarrow>
                if failed then
                  (let s = line ''Resize/move failed: Could not resize the file system on partition'' s in
                   case run Temporary (SetPartGeometryJob (firstSector (partition s)) oldLength) s of
                     (ok, s) \<Rightarrow>
                       (False,
                        if \<not> ok
                        then line ''Could not restore old partition size for partition.'' s
                        else s))
                else (True, s)))"

text \<open>
  \<^verbatim>\<open>job()->run(*report)\<close> with no test of the pointer: a null pointer is undefined
  behaviour, the value \<open>None\<close>.
\<close>

definition deref_run :: "JobSlot \<Rightarrow> Job option \<Rightarrow> Exec \<Rightarrow> (bool \<times> Exec) option" where
  "deref_run slot ptr s = (case ptr of None \<Rightarrow> None | Some j \<Rightarrow> Some (run slot j s))"

text \<open>The expression \<^verbatim>\<open>shrink(*report) && move(*report) && grow(*report)\<close>.\<close>

definition shrink_move_grow :: "ResizeOperation \<Rightarrow> Exec \<Rightarrow> bool \<times> Exec" where
  "shrink_move_grow op s =
    (case shrink op s of
       (ok, s) \<Rightarrow>
         if \<not> ok then (False, s)
         else (case move op s of
                 (ok, s) \<Rightarrow> if \<not> ok then (False, s) else grow op s))"

text \<open>
  \<^verbatim>\<open>ResizeOperation::execute\<close>. The report is a new child of the parent report, so it
  starts empty. The result is the return value, the operation with its status set, and the
  state with the report; \<open>None\<close> when a null job pointer is dereferenced.
\<close>

definition execute ::
  "(Partition \<Rightarrow> bool) \<Rightarrow> ResizeOperation \<Rightarrow> Exec \<Rightarrow> (bool \<times> ResizeOperation \<times> Exec) option" where
  "execute canCheck op parent =
    (let report = parent\<lparr>jobsRun := [], reportLines := [], reportStatus := None\<rparr>;
         checked =
           (if canCheck (partition report)
            then deref_run CheckOriginal (m_CheckOriginalJob op) report
            else Some (True, report));
         body =
           (case checked of
              None \<Rightarrow> None
            | Some (rval, s) \<Rightarrow>
                if rval then
                  (case m_MoveExtendedJob op of
                     Some j \<Rightarrow>
                       (case run MoveExtended j s of
                          (rval, s) \<Rightarrow>
                            Some (rval,
                                  if \<not> rval then line ''Moving extended partition failed.'' s
                                  else s))
                   | None \<Rightarrow>
                       (case shrink_move_grow op s of
                          (rval, s) \<Rightarrow>
                            if rval then
                              (if canCheck (partition s) then
                                 (case deref_run CheckResized (m_CheckResizedJob op) s of
                                    None \<Rightarrow> None
                                  | Some (rval, s) \<Rightarrow>
                                      Some (rval,
                                            if \<not> rval
                                            then line ''Checking partition after resize/move failed.'' s
                                            else s))
                               else Some (rval, s))
                            else Some (rval, line ''Resizing/moving partition failed.'' s)))
                else Some (rval, line ''Checking partition before resize/move failed.'' s))
     in case body of
          None \<Rightarrow> None
        | Some (rval, s) \<Rightarrow>
            (let op = op\<lparr>status := (if rval then StatusFinishedSuccess else StatusError)\<rparr>
             in Some (rval, op, s\<lparr>reportStatus := Some (status op)\<rparr>)))"

text \<open>
  The states in which \<^verbatim>\<open>execute\<close> calls \<^verbatim>\<open>shrink\<close>, \<^verbatim>\<open>move\<close> and \<^verbatim>\<open>grow\<close>, when it
  reaches the call: the new child report after the check of the original file system (run
  only when \<^verbatim>\<open>canCheck\<close> holds), then the state \<^verbatim>\<open>shrink\<close> leaves, then the state
  \<^verbatim>\<open>move\<close> leaves. The partition in \<open>enter_move\<close> is the one \<^verbatim>\<open>move\<close> reads
  \<^verbatim>\<open>oldStart\<close> from, the partition in \<open>enter_grow\<close> the one \<^verbatim>\<open>grow\<close> reads
  \<^verbatim>\<open>oldLength\<close> from.
\<close>

definition enter_shrink :: "(Partition \<Rightarrow> bool) \<Rightarrow> ResizeOperation \<Rightarrow> Exec \<Rightarrow> Exec" where
  "enter_shrink canCheck op parent =
    (let report = parent\<lparr>jobsRun := [], reportLines := [], reportStatus := None\<rparr>
     in if canCheck (partition report) then
          (case m_CheckOriginalJob op of
             None \<Rightarrow> report
           | Some j \<Rightarrow> snd (run CheckOriginal j report))
        else report)"

definition enter_move :: "(Partition \<Rightarrow> bool) \<Rightarrow> ResizeOperation \<Rightarrow> Exec \<Rightarrow> Exec" where
  "enter_move canCheck op parent = snd (shrink op (enter_shrink canCheck op parent))"

definition enter_grow :: "(Partition \<Rightarrow> bool) \<Rightarrow> ResizeOperation \<Rightarrow> Exec \<Rightarrow> Exec" where
  "enter_grow canCheck op parent = snd (move op (enter_move canCheck op parent))"

section \<open>Concrete inputs\<close>

text \<open>
  A primary partition on sectors 1000 to 1999 (1000 sectors) of a GPT disk, an extended
  partition, and two partitions in state New, one of them an encrypted container whose
  file system supports neither growing nor shrinking.
\<close>

definition part_1000_1999 :: Partition where
  "part_1000_1999 =
    \<lparr> firstSector = 1000, lastSector = 1999, roles = {Primary}, state = StateNone,
      isMounted = False, hasChildren = False,
      fileSystem = \<lparr> fs_type = Ext4, supportGrow = cmdSupportFileSystem,
                     supportShrink = cmdSupportFileSystem, supportMove = cmdSupportCore,
                     supportGrowOnline = False, supportShrinkOnline = False, innerFS = None \<rparr>,
      partitionTableType = gpt \<rparr>"

definition part_extended :: Partition where
  "part_extended =
    \<lparr> firstSector = 1000, lastSector = 2999, roles = {Extended}, state = StateNone,
      isMounted = False, hasChildren = True,
      fileSystem = \<lparr> fs_type = Unknown, supportGrow = cmdSupportNone,
                     supportShrink = cmdSupportNone, supportMove = cmdSupportNone,
                     supportGrowOnline = False, supportShrinkOnline = False, innerFS = None \<rparr>,
      partitionTableType = msdos \<rparr>"

definition part_new_plain :: Partition where
  "part_new_plain =
    \<lparr> firstSector = 2048, lastSector = 4095, roles = {Primary}, state = New,
      isMounted = False, hasChildren = False,
      fileSystem = \<lparr> fs_type = Ext4, supportGrow = cmdSupportNone,
                     supportShrink = cmdSupportNone, supportMove = cmdSupportNone,
                     supportGrowOnline = False, supportShrinkOnline = False, innerFS = None \<rparr>,
      partitionTableType = gpt \<rparr>"

definition part_new_luks :: Partition where
  "part_new_luks =
    \<lparr> firstSector = 2048, lastSector = 4095, roles = {Primary, Luks}, state = New,
      isMounted = False, hasChildren = False,
      fileSystem = \<lparr> fs_type = Luks_fs, supportGrow = cmdSupportNone,
                     supportShrink = cmdSupportNone, supportMove = cmdSupportNone,
                     supportGrowOnline = False, supportShrinkOnline = False, innerFS = None \<rparr>,
      partitionTableType = gpt \<rparr>"

text \<open>Two answers of \<^verbatim>\<open>CheckOperation::canCheck\<close>: no partition, or every partition.\<close>

definition never_check :: "Partition \<Rightarrow> bool" where
  "never_check p = False"

definition always_check :: "Partition \<Rightarrow> bool" where
  "always_check p = True"

text \<open>
  Backends: every job succeeds, every job but the \<open>k\<close>-th one run does, or every job
  from the \<open>k\<close>-th one on fails. \<open>start p b\<close>
  is the state in which \<^verbatim>\<open>execute\<close> is entered: partition \<open>p\<close>, backend \<open>b\<close>, nothing
  reported yet.
\<close>

definition all_succeed :: "nat \<Rightarrow> bool" where
  "all_succeed n = True"

definition fail_at :: "nat \<Rightarrow> nat \<Rightarrow> bool" where
  "fail_at k n = (n \<noteq> k)"

definition fail_from :: "nat \<Rightarrow> nat \<Rightarrow> bool" where
  "fail_from k n = (n < k)"

definition start :: "Partition \<Rightarrow> (nat \<Rightarrow> bool) \<Rightarrow> Exec" where
  "start p b = \<lparr> partition = p, backend = b, jobsRun = [], reportLines = [],
                 reportStatus = None \<rparr>"

text \<open>
  A device table kept as the list of the sector ranges of its partitions, for the preview
  model: removing drops the partition's range, inserting adds it. The partition of
  \<open>previewed_model\<close> is \<open>part_1000_1999\<close> already moved to sectors 500 to 1499.
\<close>

definition table_remove ::
  "(qint64 \<times> qint64) list \<Rightarrow> Partition \<Rightarrow> (qint64 \<times> qint64) list" where
  "table_remove d p = removeAll (firstSector p, lastSector p) d"

definition table_insert ::
  "(qint64 \<times> qint64) list \<Rightarrow> Partition \<Rightarrow> (qint64 \<times> qint64) list" where
  "table_insert d p = (firstSector p, lastSector p) # d"

definition previewed_model :: "(qint64 \<times> qint64) list PreviewModel" where
  "previewed_model =
     \<lparr> pm_partition = part_1000_1999\<lparr>firstSector := 500, lastSector := 1499\<rparr>,
       pm_device = [(500, 1499), (2000, 2999)] \<rparr>"

section \<open>Classification of the resize action\<close>

lemmas action_defs = None_action_def Grow_def Shrink_def MoveLeft_def
  MoveRight_def MoveLeftGrow_def MoveRightGrow_def MoveLeftShrink_def MoveRightShrink_def

lemma signed_cases:
  fixes a b :: qint64
  obtains (less) "a <s b" "\<not> b <s a" "a \<noteq> b"
        | (eq) "a = b" "\<not> a <s b" "\<not> b <s a"
        | (greater) "b <s a" "\<not> a <s b" "a \<noteq> b"
  using signed.less_linear [of a b] signed.less_asym [of a b] signed.less_irrefl [of a]
  by blast

text \<open>
  C1. For every quadruple of original and new sectors, \<^verbatim>\<open>resizeAction\<close> returns None exactly
  when the first sector and the length are both unchanged, its result is always None or one of
  the eight combinations Grow, Shrink, MoveLeft, MoveRight, MoveLeftGrow, MoveRightGrow,
  MoveLeftShrink, MoveRightShrink, it never has both the Grow and the Shrink bit, and never
  both the MoveLeft and the MoveRight bit.
\<close>

theorem resizeAction_classifies:
  "(resizeAction op = None_action) =
     (m_NewFirstSector op = m_OrigFirstSector op \<and> newLength op = origLength op)
   \<and> resizeAction op \<in> {None_action, Grow, Shrink, MoveLeft, MoveRight,
        MoveLeftGrow, MoveRightGrow, MoveLeftShrink, MoveRightShrink}
   \<and> \<not> (resizeAction op AND Grow \<noteq> 0 \<and> resizeAction op AND Shrink \<noteq> 0)
   \<and> \<not> (resizeAction op AND MoveLeft \<noteq> 0 \<and> resizeAction op AND MoveRight \<noteq> 0)"
proof (cases "origLength op" "newLength op" rule: signed_cases)
  case less
  then show ?thesis
    by (cases "m_OrigFirstSector op" "m_NewFirstSector op" rule: signed_cases)
       (simp_all add: resizeAction_def action_defs)
next
  case eq
  then show ?thesis
    by (cases "m_OrigFirstSector op" "m_NewFirstSector op" rule: signed_cases)
       (simp_all add: resizeAction_def action_defs)
next
  case greater
  then show ?thesis
    by (cases "m_OrigFirstSector op" "m_NewFirstSector op" rule: signed_cases)
       (simp_all add: resizeAction_def action_defs)
qed

lemma grow_not_shrink:
  "resizeAction op AND Grow \<noteq> 0 \<Longrightarrow> resizeAction op AND Shrink = 0"
  by (cases "origLength op" "newLength op" rule: signed_cases;
      cases "m_OrigFirstSector op" "m_NewFirstSector op" rule: signed_cases)
     (simp_all add: resizeAction_def action_defs)

section \<open>Eligibility\<close>

text \<open>
  C10. A null partition pointer is a defined branch of each eligibility predicate: the
  answer is false, whatever the set of dirty physical volumes.
\<close>

theorem can_null_false:
  "canGrow s_DirtyPVs None = False
   \<and> canShrink s_DirtyPVs None = False
   \<and> canMove s_DirtyPVs None = False"
  by (simp add: canGrow_def canShrink_def canMove_def)

text \<open>
  C9 (as amended). For a partition in state New, on a device with a real partition table and
  not a physical volume of a dirty volume group: without the Luks role, \<^verbatim>\<open>canGrow\<close>,
  \<^verbatim>\<open>canShrink\<close> and \<^verbatim>\<open>canMove\<close> are all true; with the Luks role, \<^verbatim>\<open>canMove\<close> is
  false, and \<^verbatim>\<open>canGrow\<close> and \<^verbatim>\<open>canShrink\<close> fall through to the file system's
  capabilities: the online capability when mounted, otherwise whether the offline capability
  is not \<^verbatim>\<open>cmdSupportNone\<close>.
\<close>

theorem new_partition_eligibility:
  assumes "state p = New" and "partitionTableType p \<noteq> none"
    and "\<not> isLVMPVinNewlyVG s_DirtyPVs p"
  shows "canMove s_DirtyPVs (Some p) = (\<not> has (roles p) Luks)
       \<and> canGrow s_DirtyPVs (Some p) =
           (if \<not> has (roles p) Luks then True
            else if isMounted p then supportGrowOnline (fileSystem p)
            else supportGrow (fileSystem p) \<noteq> cmdSupportNone)
       \<and> canShrink s_DirtyPVs (Some p) =
           (if \<not> has (roles p) Luks then True
            else if isMounted p then supportShrinkOnline (fileSystem p)
            else supportShrink (fileSystem p) \<noteq> cmdSupportNone)"
  using assms by (simp add: canMove_def canGrow_def canShrink_def)

theorem new_partition_eligibility_witness:
  "state part_new_plain = New \<and> partitionTableType part_new_plain \<noteq> none
   \<and> \<not> isLVMPVinNewlyVG {} part_new_plain
   \<and> canMove {} (Some part_new_plain) \<and> canGrow {} (Some part_new_plain)
   \<and> canShrink {} (Some part_new_plain)
   \<and> state part_new_luks = New \<and> partitionTableType part_new_luks \<noteq> none
   \<and> \<not> isLVMPVinNewlyVG {} part_new_luks
   \<and> \<not> canMove {} (Some part_new_luks)"
  using new_partition_eligibility [of part_new_plain "{}"]
    new_partition_eligibility [of part_new_luks "{}"]
  by (simp add: part_new_plain_def part_new_luks_def isLVMPVinNewlyVG_def has_def)

text \<open>
  The spec's sentence fails on the code: a partition in state New with the Luks role, not mounted, whose
  file system supports no growing and no shrinking, can be neither grown nor shrunk, and its
  state is not Copy.
\<close>

theorem new_luks_grow_counterexample:
  "state part_new_luks = New \<and> partitionTableType part_new_luks \<noteq> none
   \<and> \<not> isLVMPVinNewlyVG {} part_new_luks
   \<and> state part_new_luks \<noteq> Copy
   \<and> canGrow {} (Some part_new_luks) = False
   \<and> canShrink {} (Some part_new_luks) = False"
  by (simp add: part_new_luks_def isLVMPVinNewlyVG_def has_def canGrow_def canShrink_def)

section \<open>The composed job list\<close>

lemma resizeAction_cong:
  "m_OrigFirstSector a = m_OrigFirstSector b \<Longrightarrow> m_OrigLastSector a = m_OrigLastSector b \<Longrightarrow>
   m_NewFirstSector a = m_NewFirstSector b \<Longrightarrow> m_NewLastSector a = m_NewLastSector b \<Longrightarrow>
   resizeAction a = resizeAction b"
  by (simp add: resizeAction_def origLength_def newLength_def)

lemma newLength_cong:
  "m_NewFirstSector a = m_NewFirstSector b \<Longrightarrow> m_NewLastSector a = m_NewLastSector b \<Longrightarrow>
   newLength a = newLength b"
  by (simp add: newLength_def)

lemma addJob_sectors [simp]:
  "m_OrigFirstSector (addJob sl j op) = m_OrigFirstSector op"
  "m_OrigLastSector (addJob sl j op) = m_OrigLastSector op"
  "m_NewFirstSector (addJob sl j op) = m_NewFirstSector op"
  "m_NewLastSector (addJob sl j op) = m_NewLastSector op"
  by (simp_all add: addJob_def)

lemma addJob_jobs [simp]: "jobs (addJob sl j op) = jobs op @ [(sl, j)]"
  by (simp add: addJob_def)

lemma addShrinkJobs_sectors [simp]:
  "m_OrigFirstSector (addShrinkJobs p op) = m_OrigFirstSector op"
  "m_OrigLastSector (addShrinkJobs p op) = m_OrigLastSector op"
  "m_NewFirstSector (addShrinkJobs p op) = m_NewFirstSector op"
  "m_NewLastSector (addShrinkJobs p op) = m_NewLastSector op"
  by (simp_all add: addShrinkJobs_def Let_def)

lemma addMoveJobs_sectors [simp]:
  "m_OrigFirstSector (addMoveJobs p op) = m_OrigFirstSector op"
  "m_OrigLastSector (addMoveJobs p op) = m_OrigLastSector op"
  "m_NewFirstSector (addMoveJobs p op) = m_NewFirstSector op"
  "m_NewLastSector (addMoveJobs p op) = m_NewLastSector op"
  by (simp_all add: addMoveJobs_def Let_def)

lemma addGrowJobs_sectors [simp]:
  "m_OrigFirstSector (addGrowJobs op) = m_OrigFirstSector op"
  "m_OrigLastSector (addGrowJobs op) = m_OrigLastSector op"
  "m_NewFirstSector (addGrowJobs op) = m_NewFirstSector op"
  "m_NewLastSector (addGrowJobs op) = m_NewLastSector op"
  by (simp_all add: addGrowJobs_def Let_def)

lemma initialised_simps [simp]:
  "m_OrigFirstSector (initialised p nf nl) = firstSector p"
  "m_OrigLastSector (initialised p nf nl) = lastSector p"
  "m_NewFirstSector (initialised p nf nl) = nf"
  "m_NewLastSector (initialised p nf nl) = nl"
  "jobs (initialised p nf nl) = []"
  by (simp_all add: initialised_def)

lemma ctor_sectors [simp]:
  "m_OrigFirstSector (ResizeOperation_ctor canCheck p nf nl) = firstSector p"
  "m_OrigLastSector (ResizeOperation_ctor canCheck p nf nl) = lastSector p"
  "m_NewFirstSector (ResizeOperation_ctor canCheck p nf nl) = nf"
  "m_NewLastSector (ResizeOperation_ctor canCheck p nf nl) = nl"
  by (simp_all add: ResizeOperation_ctor_def Let_def)


lemma addJob_action [simp]:
  "resizeAction (addJob sl j op) = resizeAction op" "newLength (addJob sl j op) = newLength op"
  by (rule resizeAction_cong; simp) (rule newLength_cong; simp)

lemma addShrinkJobs_action [simp]:
  "resizeAction (addShrinkJobs p op) = resizeAction op"
  "newLength (addShrinkJobs p op) = newLength op"
  by (rule resizeAction_cong; simp) (rule newLength_cong; simp)

lemma addMoveJobs_action [simp]:
  "resizeAction (addMoveJobs p op) = resizeAction op"
  "newLength (addMoveJobs p op) = newLength op"
  by (rule resizeAction_cong; simp) (rule newLength_cong; simp)

lemma addGrowJobs_action [simp]:
  "resizeAction (addGrowJobs op) = resizeAction op"
  "newLength (addGrowJobs op) = newLength op"
  by (rule resizeAction_cong; simp) (rule newLength_cong; simp)

lemma ctor_action:
  "resizeAction (ResizeOperation_ctor canCheck p nf nl) = resizeAction (initialised p nf nl)"
  by (rule resizeAction_cong; simp)

lemma initialised_newLength [simp]: "newLength (initialised p nf nl) = nl - nf + 1"
  by (simp add: newLength_def)

lemma addShrinkJobs_jobs:
  "jobs (addShrinkJobs p op) = jobs op @
     (if resizeAction op AND Shrink \<noteq> 0
      then [(ShrinkResize, ResizeFileSystemJob (newLength op)),
            (ShrinkSetGeom, SetPartGeometryJob (firstSector p) (newLength op))]
      else [])"
  by (simp add: addShrinkJobs_def Let_def addJob_def)

lemma addMoveJobs_jobs:
  "jobs (addMoveJobs p op) = jobs op @
     (if resizeAction op AND MoveLeft \<noteq> 0 \<or> resizeAction op AND MoveRight \<noteq> 0
      then [(MoveSetGeom, SetPartGeometryJob (m_NewFirstSector op)
               (if resizeAction op AND Shrink \<noteq> 0 then newLength op else length_p p)),
            (MoveFileSystem, MoveFileSystemJob (m_NewFirstSector op))]
      else [])"
  by (simp add: addMoveJobs_def Let_def addJob_def)

lemma addGrowJobs_jobs:
  "jobs (addGrowJobs op) = jobs op @
     (if resizeAction op AND Grow \<noteq> 0
      then [(GrowSetGeom, SetPartGeometryJob (m_NewFirstSector op) (newLength op)),
            (GrowResize, ResizeFileSystemJob (newLength op))]
      else [])"
  by (simp add: addGrowJobs_def Let_def addJob_def)

lemma jobs_update_other [simp]:
  "jobs (op\<lparr>m_CheckResizedJob := x\<rparr>) = jobs op"
  by simp

lemma action_update_other [simp]:
  "resizeAction (op\<lparr>m_CheckResizedJob := x\<rparr>) = resizeAction op"
  "resizeAction (op\<lparr>m_MoveExtendedJob := x\<rparr>) = resizeAction op"
  by (rule resizeAction_cong; simp)+

text \<open>
  C5. For a partition that is not extended the job list is, in this order: the check of the
  original file system (when \<^verbatim>\<open>canCheck\<close> holds); resize-filesystem then set-geometry of
  the shrink (exactly when the Shrink bit is set); set-geometry then move-filesystem of the
  move (exactly when MoveLeft or MoveRight is set); set-geometry then resize-filesystem of the
  grow (exactly when the Grow bit is set); the check of the resized file system (when
  \<^verbatim>\<open>canCheck\<close> holds).
\<close>

theorem ctor_job_order:
  "\<not> has (roles p) Extended \<Longrightarrow>
   jobs (ResizeOperation_ctor canCheck p nf nl) =
     (if canCheck p then [(CheckOriginal, CheckFileSystemJob)] else [])
     @ (if resizeAction (ResizeOperation_ctor canCheck p nf nl) AND Shrink \<noteq> 0
        then [(ShrinkResize, ResizeFileSystemJob (nl - nf + 1)),
              (ShrinkSetGeom, SetPartGeometryJob (firstSector p) (nl - nf + 1))]
        else [])
     @ (if resizeAction (ResizeOperation_ctor canCheck p nf nl) AND MoveLeft \<noteq> 0
           \<or> resizeAction (ResizeOperation_ctor canCheck p nf nl) AND MoveRight \<noteq> 0
        then [(MoveSetGeom, SetPartGeometryJob nf
                 (if resizeAction (ResizeOperation_ctor canCheck p nf nl) AND Shrink \<noteq> 0
                  then nl - nf + 1 else length_p p)),
              (MoveFileSystem, MoveFileSystemJob nf)]
        else [])
     @ (if resizeAction (ResizeOperation_ctor canCheck p nf nl) AND Grow \<noteq> 0
        then [(GrowSetGeom, SetPartGeometryJob nf (nl - nf + 1)),
              (GrowResize, ResizeFileSystemJob (nl - nf + 1))]
        else [])
     @ (if canCheck p then [(CheckResized, CheckFileSystemJob)] else [])"
  unfolding ctor_action
  by (simp add: ResizeOperation_ctor_def Let_def addShrinkJobs_jobs addMoveJobs_jobs
        addGrowJobs_jobs del: append_assoc)

lemma action_1000_1999_1000_1499:
  "resizeAction (initialised part_1000_1999 1000 1499) = Shrink"
  by (simp add: resizeAction_def initialised_def origLength_def newLength_def
        part_1000_1999_def action_defs word_sless_alt)

theorem ctor_job_order_witness:
  "\<not> has (roles part_1000_1999) Extended
   \<and> jobs (ResizeOperation_ctor never_check part_1000_1999 1000 1499) =
       [(ShrinkResize, ResizeFileSystemJob 500), (ShrinkSetGeom, SetPartGeometryJob 1000 500)]"
  using ctor_job_order [of part_1000_1999 never_check 1000 1499]
  by (simp add: ctor_action action_1000_1999_1000_1499 has_def never_check_def action_defs)
     (simp add: part_1000_1999_def)

lemma addJob_fields [simp]:
  "m_CheckOriginalJob (addJob sl j op) = m_CheckOriginalJob op"
  "m_MoveExtendedJob (addJob sl j op) = m_MoveExtendedJob op"
  "m_ShrinkResizeJob (addJob sl j op) = m_ShrinkResizeJob op"
  "m_ShrinkSetGeomJob (addJob sl j op) = m_ShrinkSetGeomJob op"
  "m_MoveSetGeomJob (addJob sl j op) = m_MoveSetGeomJob op"
  "m_MoveFileSystemJob (addJob sl j op) = m_MoveFileSystemJob op"
  "m_GrowSetGeomJob (addJob sl j op) = m_GrowSetGeomJob op"
  "m_GrowResizeJob (addJob sl j op) = m_GrowResizeJob op"
  "m_CheckResizedJob (addJob sl j op) = m_CheckResizedJob op"
  by (simp_all add: addJob_def)

lemma addShrinkJobs_fields [simp]:
  "m_CheckOriginalJob (addShrinkJobs p op) = m_CheckOriginalJob op"
  "m_MoveExtendedJob (addShrinkJobs p op) = m_MoveExtendedJob op"
  "m_ShrinkResizeJob (addShrinkJobs p op) =
     (if resizeAction op AND Shrink \<noteq> 0 then Some (ResizeFileSystemJob (newLength op))
      else m_ShrinkResizeJob op)"
  "m_ShrinkSetGeomJob (addShrinkJobs p op) =
     (if resizeAction op AND Shrink \<noteq> 0
      then Some (SetPartGeometryJob (firstSector p) (newLength op))
      else m_ShrinkSetGeomJob op)"
  "m_MoveSetGeomJob (addShrinkJobs p op) = m_MoveSetGeomJob op"
  "m_MoveFileSystemJob (addShrinkJobs p op) = m_MoveFileSystemJob op"
  "m_GrowSetGeomJob (addShrinkJobs p op) = m_GrowSetGeomJob op"
  "m_GrowResizeJob (addShrinkJobs p op) = m_GrowResizeJob op"
  "m_CheckResizedJob (addShrinkJobs p op) = m_CheckResizedJob op"
  by (simp_all add: addShrinkJobs_def Let_def)

lemma addMoveJobs_fields [simp]:
  "m_CheckOriginalJob (addMoveJobs p op) = m_CheckOriginalJob op"
  "m_MoveExtendedJob (addMoveJobs p op) = m_MoveExtendedJob op"
  "m_ShrinkResizeJob (addMoveJobs p op) = m_ShrinkResizeJob op"
  "m_ShrinkSetGeomJob (addMoveJobs p op) = m_ShrinkSetGeomJob op"
  "m_MoveSetGeomJob (addMoveJobs p op) =
     (if resizeAction op AND MoveLeft \<noteq> 0 \<or> resizeAction op AND MoveRight \<noteq> 0
      then Some (SetPartGeometryJob (m_NewFirstSector op)
                   (if resizeAction op AND Shrink \<noteq> 0 then newLength op else length_p p))
      else m_MoveSetGeomJob op)"
  "m_MoveFileSystemJob (addMoveJobs p op) =
     (if resizeAction op AND MoveLeft \<noteq> 0 \<or> resizeAction op AND MoveRight \<noteq> 0
      then Some (MoveFileSystemJob (m_NewFirstSector op))
      else m_MoveFileSystemJob op)"
  "m_GrowSetGeomJob (addMoveJobs p op) = m_GrowSetGeomJob op"
  "m_GrowResizeJob (addMoveJobs p op) = m_GrowResizeJob op"
  "m_CheckResizedJob (addMoveJobs p op) = m_CheckResizedJob op"
  by (simp_all add: addMoveJobs_def Let_def)

lemma addGrowJobs_fields [simp]:
  "m_CheckOriginalJob (addGrowJobs op) = m_CheckOriginalJob op"
  "m_MoveExtendedJob (addGrowJobs op) = m_MoveExtendedJob op"
  "m_ShrinkResizeJob (addGrowJobs op) = m_ShrinkResizeJob op"
  "m_ShrinkSetGeomJob (addGrowJobs op) = m_ShrinkSetGeomJob op"
  "m_MoveSetGeomJob (addGrowJobs op) = m_MoveSetGeomJob op"
  "m_MoveFileSystemJob (addGrowJobs op) = m_MoveFileSystemJob op"
  "m_GrowSetGeomJob (addGrowJobs op) =
     (if resizeAction op AND Grow \<noteq> 0
      then Some (SetPartGeometryJob (m_NewFirstSector op) (newLength op))
      else m_GrowSetGeomJob op)"
  "m_GrowResizeJob (addGrowJobs op) =
     (if resizeAction op AND Grow \<noteq> 0 then Some (ResizeFileSystemJob (newLength op))
      else m_GrowResizeJob op)"
  "m_CheckResizedJob (addGrowJobs op) = m_CheckResizedJob op"
  by (simp_all add: addGrowJobs_def Let_def)

lemma initialised_fields [simp]:
  "m_CheckOriginalJob (initialised p nf nl) = Some CheckFileSystemJob"
  "m_MoveExtendedJob (initialised p nf nl) = None"
  "m_ShrinkResizeJob (initialised p nf nl) = None"
  "m_ShrinkSetGeomJob (initialised p nf nl) = None"
  "m_MoveSetGeomJob (initialised p nf nl) = None"
  "m_MoveFileSystemJob (initialised p nf nl) = None"
  "m_GrowSetGeomJob (initialised p nf nl) = None"
  "m_GrowResizeJob (initialised p nf nl) = None"
  "m_CheckResizedJob (initialised p nf nl) = None"
  by (simp_all add: initialised_def)

lemma ctor_fields_plain:
  "\<not> has (roles p) Extended \<Longrightarrow>
   m_CheckOriginalJob (ResizeOperation_ctor canCheck p nf nl) = Some CheckFileSystemJob
   \<and> m_MoveExtendedJob (ResizeOperation_ctor canCheck p nf nl) = None
   \<and> m_CheckResizedJob (ResizeOperation_ctor canCheck p nf nl) = Some CheckFileSystemJob"
  by (simp add: ResizeOperation_ctor_def Let_def)

lemma ctor_fields_shrink:
  "\<not> has (roles p) Extended \<Longrightarrow>
   m_ShrinkResizeJob (ResizeOperation_ctor canCheck p nf nl) =
     (if resizeAction (initialised p nf nl) AND Shrink \<noteq> 0
      then Some (ResizeFileSystemJob (nl - nf + 1)) else None)
   \<and> m_ShrinkSetGeomJob (ResizeOperation_ctor canCheck p nf nl) =
     (if resizeAction (initialised p nf nl) AND Shrink \<noteq> 0
      then Some (SetPartGeometryJob (firstSector p) (nl - nf + 1)) else None)"
  by (simp add: ResizeOperation_ctor_def Let_def)

lemma ctor_fields_move:
  "\<not> has (roles p) Extended \<Longrightarrow>
   m_MoveSetGeomJob (ResizeOperation_ctor canCheck p nf nl) =
     (if resizeAction (initialised p nf nl) AND MoveLeft \<noteq> 0
         \<or> resizeAction (initialised p nf nl) AND MoveRight \<noteq> 0
      then Some (SetPartGeometryJob nf
                   (if resizeAction (initialised p nf nl) AND Shrink \<noteq> 0
                    then nl - nf + 1 else length_p p))
      else None)
   \<and> m_MoveFileSystemJob (ResizeOperation_ctor canCheck p nf nl) =
     (if resizeAction (initialised p nf nl) AND MoveLeft \<noteq> 0
         \<or> resizeAction (initialised p nf nl) AND MoveRight \<noteq> 0
      then Some (MoveFileSystemJob nf) else None)"
  by (simp add: ResizeOperation_ctor_def Let_def)

lemma ctor_fields_grow:
  "\<not> has (roles p) Extended \<Longrightarrow>
   m_GrowSetGeomJob (ResizeOperation_ctor canCheck p nf nl) =
     (if resizeAction (initialised p nf nl) AND Grow \<noteq> 0
      then Some (SetPartGeometryJob nf (nl - nf + 1)) else None)
   \<and> m_GrowResizeJob (ResizeOperation_ctor canCheck p nf nl) =
     (if resizeAction (initialised p nf nl) AND Grow \<noteq> 0
      then Some (ResizeFileSystemJob (nl - nf + 1)) else None)"
  by (simp add: ResizeOperation_ctor_def Let_def)

lemma ctor_fields_extended:
  "has (roles p) Extended \<Longrightarrow>
   m_CheckOriginalJob (ResizeOperation_ctor canCheck p nf nl) = Some CheckFileSystemJob
   \<and> m_MoveExtendedJob (ResizeOperation_ctor canCheck p nf nl)
       = Some (SetPartGeometryJob nf (nl - nf + 1))
   \<and> m_ShrinkResizeJob (ResizeOperation_ctor canCheck p nf nl) = None
   \<and> m_ShrinkSetGeomJob (ResizeOperation_ctor canCheck p nf nl) = None
   \<and> m_MoveSetGeomJob (ResizeOperation_ctor canCheck p nf nl) = None
   \<and> m_MoveFileSystemJob (ResizeOperation_ctor canCheck p nf nl) = None
   \<and> m_GrowSetGeomJob (ResizeOperation_ctor canCheck p nf nl) = None
   \<and> m_GrowResizeJob (ResizeOperation_ctor canCheck p nf nl) = None
   \<and> m_CheckResizedJob (ResizeOperation_ctor canCheck p nf nl) = None"
  by (simp add: ResizeOperation_ctor_def Let_def)

lemma ctor_jobs_extended:
  "has (roles p) Extended \<Longrightarrow>
   jobs (ResizeOperation_ctor canCheck p nf nl) =
     (if canCheck p then [(CheckOriginal, CheckFileSystemJob)] else [])
     @ [(MoveExtended, SetPartGeometryJob nf (nl - nf + 1))]"
  by (simp add: ResizeOperation_ctor_def Let_def)

section \<open>Preview and undo of the partition's sectors\<close>

lemma pm_simps [simp]:
  "pm_partition (setFirstSector v m) = (pm_partition m)\<lparr>firstSector := v\<rparr>"
  "pm_partition (setLastSector v m) = (pm_partition m)\<lparr>lastSector := v\<rparr>"
  "pm_partition (onDevice f m) = pm_partition m"
  by (simp_all add: setFirstSector_def setLastSector_def onDevice_def)

lemma preview_partition:
  "pm_partition (preview removePP insertPP op m) =
     (pm_partition m)\<lparr>firstSector := m_NewFirstSector op, lastSector := m_NewLastSector op\<rparr>"
  by (simp add: preview_def Let_def)

lemma undo_partition:
  "pm_partition (undo removePP insertPP op m) =
     (pm_partition m)\<lparr>firstSector := m_OrigFirstSector op, lastSector := m_OrigLastSector op\<rparr>"
  by (simp add: undo_def Let_def)

text \<open>
  C7. \<^verbatim>\<open>preview\<close> followed by \<^verbatim>\<open>undo\<close> leaves the partition's first and last sector at
  the operation's original values, whatever the table operations do to the device; for an
  operation constructed on the partition as it is in the model, the partition is then what it
  was before the preview.
\<close>

theorem preview_undo_restores:
  "firstSector (pm_partition (undo removePP insertPP op (preview removePP insertPP op m)))
     = m_OrigFirstSector op
   \<and> lastSector (pm_partition (undo removePP insertPP op (preview removePP insertPP op m)))
     = m_OrigLastSector op
   \<and> pm_partition
       (undo removePP insertPP (ResizeOperation_ctor canCheck (pm_partition m) nf nl)
          (preview removePP insertPP (ResizeOperation_ctor canCheck (pm_partition m) nf nl) m))
     = pm_partition m"
  by (simp add: preview_partition undo_partition)

text \<open>
  C8. When the partition is already at the new first and last sector, \<^verbatim>\<open>preview\<close> leaves
  it there: the partition after the call is the partition before it, and a second call gives
  the same partition as the first.
\<close>

theorem preview_idempotent:
  assumes "firstSector (pm_partition m) = m_NewFirstSector op"
    and "lastSector (pm_partition m) = m_NewLastSector op"
  shows "firstSector (pm_partition (preview removePP insertPP op m)) = m_NewFirstSector op
       \<and> lastSector (pm_partition (preview removePP insertPP op m)) = m_NewLastSector op
       \<and> pm_partition (preview removePP insertPP op m) = pm_partition m
       \<and> pm_partition (preview removePP insertPP op (preview removePP insertPP op m))
           = pm_partition (preview removePP insertPP op m)"
  using assms by (simp add: preview_partition)

theorem preview_idempotent_witness:
  "firstSector (pm_partition previewed_model)
     = m_NewFirstSector (ResizeOperation_ctor never_check part_1000_1999 500 1499)
   \<and> lastSector (pm_partition previewed_model)
     = m_NewLastSector (ResizeOperation_ctor never_check part_1000_1999 500 1499)
   \<and> firstSector (pm_partition (preview table_remove table_insert
         (ResizeOperation_ctor never_check part_1000_1999 500 1499) previewed_model)) = 500
   \<and> lastSector (pm_partition (preview table_remove table_insert
         (ResizeOperation_ctor never_check part_1000_1999 500 1499) previewed_model)) = 1499"
  using preview_idempotent [of previewed_model
      "ResizeOperation_ctor never_check part_1000_1999 500 1499" table_remove table_insert]
  by (simp add: previewed_model_def)

section \<open>Running the jobs\<close>

lemma run_simps [simp]:
  "fst (run sl j s) = backend s (length (jobsRun s))"
  "jobsRun (snd (run sl j s)) = jobsRun s @ [(sl, j, backend s (length (jobsRun s)))]"
  "backend (snd (run sl j s)) = backend s"
  "partition (snd (run sl j s)) = jobEffect j (backend s (length (jobsRun s))) (partition s)"
  by (simp_all add: run_def Let_def)

lemma line_simps [simp]:
  "jobsRun (line m s) = jobsRun s"
  "backend (line m s) = backend s"
  "partition (line m s) = partition s"
  by (simp_all add: line_def)

lemma backend_phase [simp]:
  "backend (snd (shrink op s)) = backend s"
  "backend (snd (move op s)) = backend s"
  "backend (snd (grow op s)) = backend s"
  by (simp_all add: shrink_def move_def grow_def setAndFails_def split_beta Let_def
        split: option.splits)

lemma backend_smg [simp]: "backend (snd (shrink_move_grow op s)) = backend s"
  by (simp add: shrink_move_grow_def split_beta)

lemma smg_simps:
  "fst (shrink_move_grow op s) =
     (fst (shrink op s) \<and> fst (move op (snd (shrink op s)))
      \<and> fst (grow op (snd (move op (snd (shrink op s))))))"
  "snd (shrink_move_grow op s) =
     (if \<not> fst (shrink op s) then snd (shrink op s)
      else if \<not> fst (move op (snd (shrink op s))) then snd (move op (snd (shrink op s)))
      else snd (grow op (snd (move op (snd (shrink op s))))))"
  by (simp_all add: shrink_move_grow_def split_beta)

lemma execute_plain:
  assumes "m_CheckOriginalJob op = Some c" "m_MoveExtendedJob op = None"
    "m_CheckResizedJob op = Some c'"
  shows "execute canCheck op parent = Some (rv, op', s') \<longleftrightarrow>
    (let s0 = parent\<lparr>jobsRun := [], reportLines := [], reportStatus := None\<rparr> in
     if canCheck (partition parent) \<and> \<not> backend parent 0 then
       rv = False \<and> op' = op\<lparr>status := StatusError\<rparr>
       \<and> s' = (line ''Checking partition before resize/move failed.''
                 (snd (run CheckOriginal c s0)))\<lparr>reportStatus := Some StatusError\<rparr>
     else
       (let s1 = (if canCheck (partition parent) then snd (run CheckOriginal c s0) else s0);
            s2 = snd (shrink_move_grow op s1) in
        if \<not> fst (shrink_move_grow op s1) then
          rv = False \<and> op' = op\<lparr>status := StatusError\<rparr>
          \<and> s' = (line ''Resizing/moving partition failed.'' s2)\<lparr>reportStatus := Some StatusError\<rparr>
        else if canCheck (partition s2) then
          rv = backend parent (length (jobsRun s2))
          \<and> op' = op\<lparr>status := (if rv then StatusFinishedSuccess else StatusError)\<rparr>
          \<and> s' = (if rv then snd (run CheckResized c' s2)
                   else line ''Checking partition after resize/move failed.''
                          (snd (run CheckResized c' s2)))
                  \<lparr>reportStatus := Some (if rv then StatusFinishedSuccess else StatusError)\<rparr>
        else
          rv = True \<and> op' = op\<lparr>status := StatusFinishedSuccess\<rparr>
          \<and> s' = s2\<lparr>reportStatus := Some StatusFinishedSuccess\<rparr>))"
  using assms
  apply (simp add: execute_def deref_run_def Let_def split_beta)
  apply (auto simp: )
  done

lemma jobEffect_simps [simp]:
  "jobEffect CheckFileSystemJob b p = p"
  "jobEffect (ResizeFileSystemJob l) b p = p"
  "jobEffect (MoveFileSystemJob f) b p = p"
  "jobEffect j False p = p"
  "jobEffect (SetPartGeometryJob f l) True p = p\<lparr>firstSector := f, lastSector := f + l - 1\<rparr>"
  by (simp_all add: jobEffect_def split: Job.splits)

lemma length_p_update [simp]:
  "length_p (p\<lparr>firstSector := f, lastSector := f + l - 1\<rparr>) = l"
  by (simp add: length_p_def)

lemma shrink_proj:
  assumes "m_ShrinkResizeJob op = (if c then Some (ResizeFileSystemJob l) else None)"
    and "m_ShrinkSetGeomJob op = (if c then Some (SetPartGeometryJob f l') else None)"
  shows "fst (shrink op s) =
           (\<not> c \<or> backend s (length (jobsRun s)) \<and> backend s (Suc (length (jobsRun s))))"
    and "jobsRun (snd (shrink op s)) =
           jobsRun s @
           (if c then
              (ShrinkResize, ResizeFileSystemJob l, backend s (length (jobsRun s)))
              # (if backend s (length (jobsRun s))
                 then [(ShrinkSetGeom, SetPartGeometryJob f l',
                        backend s (Suc (length (jobsRun s))))]
                 else [])
            else [])"
    and "partition (snd (shrink op s)) =
           (if c \<and> backend s (length (jobsRun s)) \<and> backend s (Suc (length (jobsRun s)))
            then (partition s)\<lparr>firstSector := f, lastSector := f + l' - 1\<rparr>
            else partition s)"
  using assms by (simp_all add: shrink_def setAndFails_def split_beta split: if_splits)

lemma move_proj:
  assumes "m_MoveSetGeomJob op = (if c then Some (SetPartGeometryJob f l) else None)"
    and "m_MoveFileSystemJob op = (if c then Some (MoveFileSystemJob f') else None)"
  shows "fst (move op s) =
           (\<not> c \<or> backend s (length (jobsRun s)) \<and> backend s (Suc (length (jobsRun s))))"
    and "jobsRun (snd (move op s)) =
           jobsRun s @
           (if c then
              (MoveSetGeom, SetPartGeometryJob f l, backend s (length (jobsRun s)))
              # (if backend s (length (jobsRun s))
                 then (MoveFileSystem, MoveFileSystemJob f', backend s (Suc (length (jobsRun s))))
                   # (if backend s (Suc (length (jobsRun s))) then []
                      else [(Temporary, SetPartGeometryJob (firstSector (partition s)) l,
                             backend s (Suc (Suc (length (jobsRun s)))))])
                 else [])
            else [])"
    and "partition (snd (move op s)) =
           (if c \<and> backend s (length (jobsRun s))
            then (if backend s (Suc (length (jobsRun s)))
                  then (partition s)\<lparr>firstSector := f, lastSector := f + l - 1\<rparr>
                  else if backend s (Suc (Suc (length (jobsRun s))))
                  then (partition s)\<lparr>firstSector := firstSector (partition s),
                         lastSector := firstSector (partition s) + l - 1\<rparr>
                  else (partition s)\<lparr>firstSector := f, lastSector := f + l - 1\<rparr>)
            else partition s)"
  using assms by (simp_all add: move_def setAndFails_def split_beta Let_def split: if_splits)

lemma grow_proj:
  assumes "m_GrowSetGeomJob op = (if c then Some (SetPartGeometryJob f l) else None)"
    and "m_GrowResizeJob op = (if c then Some (ResizeFileSystemJob l') else None)"
  shows "fst (grow op s) =
           (\<not> c \<or> backend s (length (jobsRun s)) \<and> backend s (Suc (length (jobsRun s))))"
    and "jobsRun (snd (grow op s)) =
           jobsRun s @
           (if c then
              (GrowSetGeom, SetPartGeometryJob f l, backend s (length (jobsRun s)))
              # (if backend s (length (jobsRun s))
                 then (GrowResize, ResizeFileSystemJob l', backend s (Suc (length (jobsRun s))))
                   # (if backend s (Suc (length (jobsRun s))) then []
                      else [(Temporary, SetPartGeometryJob f (length_p (partition s)),
                             backend s (Suc (Suc (length (jobsRun s)))))])
                 else [])
            else [])"
    and "partition (snd (grow op s)) =
           (if c \<and> backend s (length (jobsRun s))
            then (if backend s (Suc (length (jobsRun s)))
                  then (partition s)\<lparr>firstSector := f, lastSector := f + l - 1\<rparr>
                  else if backend s (Suc (Suc (length (jobsRun s))))
                  then (partition s)\<lparr>firstSector := f,
                         lastSector := f + length_p (partition s) - 1\<rparr>
                  else (partition s)\<lparr>firstSector := f, lastSector := f + l - 1\<rparr>)
            else partition s)"
  using assms by (simp_all add: grow_def setAndFails_def split_beta Let_def split: if_splits)

lemma execute_paths [consumes 4, case_names pre_fail shrink_fail move_fail grow_fail with_check without_check]:
  assumes "m_CheckOriginalJob op = Some c" "m_MoveExtendedJob op = None"
    "m_CheckResizedJob op = Some c'"
    and ex: "execute canCheck op parent = Some (rv, op', s')"
  obtains
    (pre_fail) "canCheck (partition parent)" "\<not> backend parent 0" "\<not> rv"
      "status op' = StatusError" "jobsRun s' = [(CheckOriginal, c, False)]"
      "partition s' = jobEffect c False (partition parent)"
  | (shrink_fail) s1 where
      "jobsRun s1 = (if canCheck (partition parent) then [(CheckOriginal, c, True)] else [])"
      "backend s1 = backend parent"
      "partition s1 = (if canCheck (partition parent) then jobEffect c True (partition parent)
                       else partition parent)"
      "\<not> fst (shrink op s1)" "\<not> rv" "status op' = StatusError"
      "jobsRun s' = jobsRun (snd (shrink op s1))"
      "partition s' = partition (snd (shrink op s1))"
  | (move_fail) s1 where
      "jobsRun s1 = (if canCheck (partition parent) then [(CheckOriginal, c, True)] else [])"
      "backend s1 = backend parent"
      "partition s1 = (if canCheck (partition parent) then jobEffect c True (partition parent)
                       else partition parent)"
      "fst (shrink op s1)" "\<not> fst (move op (snd (shrink op s1)))"
      "\<not> rv" "status op' = StatusError"
      "jobsRun s' = jobsRun (snd (move op (snd (shrink op s1))))"
      "partition s' = partition (snd (move op (snd (shrink op s1))))"
      "s1 = enter_shrink canCheck op parent"
  | (grow_fail) s1 where
      "jobsRun s1 = (if canCheck (partition parent) then [(CheckOriginal, c, True)] else [])"
      "backend s1 = backend parent"
      "partition s1 = (if canCheck (partition parent) then jobEffect c True (partition parent)
                       else partition parent)"
      "fst (shrink op s1)" "fst (move op (snd (shrink op s1)))"
      "\<not> fst (grow op (snd (move op (snd (shrink op s1)))))"
      "\<not> rv" "status op' = StatusError"
      "jobsRun s' = jobsRun (snd (grow op (snd (move op (snd (shrink op s1))))))"
      "partition s' = partition (snd (grow op (snd (move op (snd (shrink op s1))))))"
      "s1 = enter_shrink canCheck op parent"
  | (with_check) s1 where
      "jobsRun s1 = (if canCheck (partition parent) then [(CheckOriginal, c, True)] else [])"
      "backend s1 = backend parent"
      "partition s1 = (if canCheck (partition parent) then jobEffect c True (partition parent)
                       else partition parent)"
      "fst (shrink op s1)" "fst (move op (snd (shrink op s1)))"
      "fst (grow op (snd (move op (snd (shrink op s1)))))"
      "canCheck (partition (snd (grow op (snd (move op (snd (shrink op s1)))))))"
      "status op' = (if rv then StatusFinishedSuccess else StatusError)"
      "jobsRun s' = jobsRun (snd (grow op (snd (move op (snd (shrink op s1))))))
                    @ [(CheckResized, c', rv)]"
      "partition s' = jobEffect c' rv (partition (snd (grow op (snd (move op (snd (shrink op s1)))))))"
  | (without_check) s1 where
      "jobsRun s1 = (if canCheck (partition parent) then [(CheckOriginal, c, True)] else [])"
      "backend s1 = backend parent"
      "partition s1 = (if canCheck (partition parent) then jobEffect c True (partition parent)
                       else partition parent)"
      "fst (shrink op s1)" "fst (move op (snd (shrink op s1)))"
      "fst (grow op (snd (move op (snd (shrink op s1)))))"
      "\<not> canCheck (partition (snd (grow op (snd (move op (snd (shrink op s1)))))))"
      "rv" "status op' = StatusFinishedSuccess"
      "jobsRun s' = jobsRun (snd (grow op (snd (move op (snd (shrink op s1))))))"
      "partition s' = partition (snd (grow op (snd (move op (snd (shrink op s1))))))"
proof -
  let ?s0 = "parent\<lparr>jobsRun := [], reportLines := [], reportStatus := None\<rparr>"
  let ?s1 = "if canCheck (partition parent) then snd (run CheckOriginal c ?s0) else ?s0"
  note E = execute_plain [OF assms(1-3), THEN iffD1, OF ex]
  have es: "enter_shrink canCheck op parent = ?s1"
    using assms(1) by (simp add: enter_shrink_def Let_def)
  have s1: "jobsRun ?s1 = (if canCheck (partition parent) then [(CheckOriginal, c, True)] else [])"
    "backend ?s1 = backend parent"
    "partition ?s1 = (if canCheck (partition parent) then jobEffect c True (partition parent)
                       else partition parent)"
    if "canCheck (partition parent) \<longrightarrow> backend parent 0"
    using that by simp_all
  show thesis
  proof (cases "canCheck (partition parent) \<and> \<not> backend parent 0")
    case True
    with E show thesis by (intro pre_fail) simp_all
  next
    case False
    then have ok: "canCheck (partition parent) \<longrightarrow> backend parent 0" by simp
    note s1 = s1 [OF ok]
    from E False have E':
      "if \<not> fst (shrink_move_grow op ?s1) then
          rv = False \<and> op' = op\<lparr>status := StatusError\<rparr>
          \<and> s' = (line ''Resizing/moving partition failed.'' (snd (shrink_move_grow op ?s1)))
                 \<lparr>reportStatus := Some StatusError\<rparr>
        else if canCheck (partition (snd (shrink_move_grow op ?s1))) then
          rv = backend parent (length (jobsRun (snd (shrink_move_grow op ?s1))))
          \<and> op' = op\<lparr>status := (if rv then StatusFinishedSuccess else StatusError)\<rparr>
          \<and> s' = (if rv then snd (run CheckResized c' (snd (shrink_move_grow op ?s1)))
                   else line ''Checking partition after resize/move failed.''
                          (snd (run CheckResized c' (snd (shrink_move_grow op ?s1)))))
                  \<lparr>reportStatus := Some (if rv then StatusFinishedSuccess else StatusError)\<rparr>
        else
          rv = True \<and> op' = op\<lparr>status := StatusFinishedSuccess\<rparr>
          \<and> s' = (snd (shrink_move_grow op ?s1))\<lparr>reportStatus := Some StatusFinishedSuccess\<rparr>"
      by (simp add: Let_def)
    show thesis
    proof (cases "fst (shrink op ?s1)")
      case sf: False
      then have "\<not> fst (shrink_move_grow op ?s1)"
        and "snd (shrink_move_grow op ?s1) = snd (shrink op ?s1)"
        by (simp_all add: smg_simps)
      with E' sf s1 show thesis by (intro shrink_fail [of ?s1]) simp_all
    next
      case sk: True
      show thesis
      proof (cases "fst (move op (snd (shrink op ?s1)))")
        case mf: False
        with sk have "\<not> fst (shrink_move_grow op ?s1)"
          and "snd (shrink_move_grow op ?s1) = snd (move op (snd (shrink op ?s1)))"
          by (simp_all add: smg_simps)
        with E' sk mf s1 es show thesis by (intro move_fail [of ?s1]) simp_all
      next
        case mk: True
        show thesis
        proof (cases "fst (grow op (snd (move op (snd (shrink op ?s1)))))")
          case gf: False
          with sk mk have "\<not> fst (shrink_move_grow op ?s1)"
            and "snd (shrink_move_grow op ?s1)
                  = snd (grow op (snd (move op (snd (shrink op ?s1)))))"
            by (simp_all add: smg_simps)
          with E' sk mk gf s1 es show thesis by (intro grow_fail [of ?s1]) simp_all
        next
          case gk: True
          with sk mk have *: "fst (shrink_move_grow op ?s1)"
            and **: "snd (shrink_move_grow op ?s1)
                  = snd (grow op (snd (move op (snd (shrink op ?s1)))))"
            by (simp_all add: smg_simps)
          show thesis
          proof (cases "canCheck (partition (snd (grow op (snd (move op (snd (shrink op ?s1)))))))")
            case True
            with E' * ** sk mk gk s1 show thesis
              by (intro with_check [of ?s1]) (simp_all split: if_splits)
          next
            case False
            with E' * ** sk mk gk s1 show thesis
              by (intro without_check [of ?s1]) simp_all
          qed
        qed
      qed
    qed
  qed
qed

lemma shrink_ok_trace:
  assumes "m_ShrinkResizeJob op = (if c then Some (ResizeFileSystemJob l) else None)"
    and "m_ShrinkSetGeomJob op = (if c then Some (SetPartGeometryJob f l') else None)"
    and "fst (shrink op s)"
  shows "jobsRun (snd (shrink op s)) =
           jobsRun s @ (if c then [(ShrinkResize, ResizeFileSystemJob l, True),
                                   (ShrinkSetGeom, SetPartGeometryJob f l', True)] else [])"
    and "firstSector (partition (snd (shrink op s))) =
           (if c then f else firstSector (partition s))"
    and "length_p (partition (snd (shrink op s))) = (if c then l' else length_p (partition s))"
  using assms(3) by (auto simp: shrink_proj [OF assms(1,2)])

lemma shrink_fail_trace:
  assumes "m_ShrinkResizeJob op = (if c then Some (ResizeFileSystemJob l) else None)"
    and "m_ShrinkSetGeomJob op = (if c then Some (SetPartGeometryJob f l') else None)"
    and "\<not> fst (shrink op s)"
  shows "c"
    and "jobsRun (snd (shrink op s)) =
           jobsRun s @ (if backend s (length (jobsRun s))
                        then [(ShrinkResize, ResizeFileSystemJob l, True),
                              (ShrinkSetGeom, SetPartGeometryJob f l', False)]
                        else [(ShrinkResize, ResizeFileSystemJob l, False)])"
    and "partition (snd (shrink op s)) = partition s"
  using assms(3) by (auto simp: shrink_proj [OF assms(1,2)])

lemma move_ok_trace:
  assumes "m_MoveSetGeomJob op = (if c then Some (SetPartGeometryJob f l) else None)"
    and "m_MoveFileSystemJob op = (if c then Some (MoveFileSystemJob f') else None)"
    and "fst (move op s)"
  shows "jobsRun (snd (move op s)) =
           jobsRun s @ (if c then [(MoveSetGeom, SetPartGeometryJob f l, True),
                                   (MoveFileSystem, MoveFileSystemJob f', True)] else [])"
    and "firstSector (partition (snd (move op s))) =
           (if c then f else firstSector (partition s))"
    and "length_p (partition (snd (move op s))) = (if c then l else length_p (partition s))"
  using assms(3) by (auto simp: move_proj [OF assms(1,2)])

lemma move_fail_trace:
  assumes "m_MoveSetGeomJob op = (if c then Some (SetPartGeometryJob f l) else None)"
    and "m_MoveFileSystemJob op = (if c then Some (MoveFileSystemJob f') else None)"
    and "\<not> fst (move op s)"
  shows "c"
    and "jobsRun (snd (move op s)) =
           jobsRun s @ (if backend s (length (jobsRun s))
                        then [(MoveSetGeom, SetPartGeometryJob f l, True),
                              (MoveFileSystem, MoveFileSystemJob f', False),
                              (Temporary, SetPartGeometryJob (firstSector (partition s)) l,
                               backend s (Suc (Suc (length (jobsRun s)))))]
                        else [(MoveSetGeom, SetPartGeometryJob f l, False)])"
    and "backend s (length (jobsRun s)) \<Longrightarrow> backend s (Suc (Suc (length (jobsRun s)))) \<Longrightarrow>
           firstSector (partition (snd (move op s))) = firstSector (partition s)"
  using assms(3) by (auto simp: move_proj [OF assms(1,2)])

lemma grow_ok_trace:
  assumes "m_GrowSetGeomJob op = (if c then Some (SetPartGeometryJob f l) else None)"
    and "m_GrowResizeJob op = (if c then Some (ResizeFileSystemJob l') else None)"
    and "fst (grow op s)"
  shows "jobsRun (snd (grow op s)) =
           jobsRun s @ (if c then [(GrowSetGeom, SetPartGeometryJob f l, True),
                                   (GrowResize, ResizeFileSystemJob l', True)] else [])"
  using assms(3) by (auto simp: grow_proj [OF assms(1,2)])

lemma grow_fail_trace:
  assumes "m_GrowSetGeomJob op = (if c then Some (SetPartGeometryJob f l) else None)"
    and "m_GrowResizeJob op = (if c then Some (ResizeFileSystemJob l') else None)"
    and "\<not> fst (grow op s)"
  shows "c"
    and "jobsRun (snd (grow op s)) =
           jobsRun s @ (if backend s (length (jobsRun s))
                        then [(GrowSetGeom, SetPartGeometryJob f l, True),
                              (GrowResize, ResizeFileSystemJob l', False),
                              (Temporary, SetPartGeometryJob f (length_p (partition s)),
                               backend s (Suc (Suc (length (jobsRun s)))))]
                        else [(GrowSetGeom, SetPartGeometryJob f l, False)])"
    and "backend s (length (jobsRun s)) \<Longrightarrow> backend s (Suc (Suc (length (jobsRun s)))) \<Longrightarrow>
           length_p (partition (snd (grow op s))) = length_p (partition s)"
  using assms(3) by (auto simp: grow_proj [OF assms(1,2)])

lemma execute_extended:
  assumes "m_CheckOriginalJob op = Some c" "m_MoveExtendedJob op = Some g"
  shows "map_option fst (execute canCheck op parent) =
           Some (if canCheck (partition parent) then backend parent 0 \<and> backend parent 1
                 else backend parent 0)"
    and "map_option (jobsRun \<circ> snd \<circ> snd) (execute canCheck op parent) =
           Some (if canCheck (partition parent)
                 then (CheckOriginal, c, backend parent 0)
                      # (if backend parent 0 then [(MoveExtended, g, backend parent 1)] else [])
                 else [(MoveExtended, g, backend parent 0)])"
    and "map_option (status \<circ> fst \<circ> snd) (execute canCheck op parent) =
           Some (if (if canCheck (partition parent) then backend parent 0 \<and> backend parent 1
                     else backend parent 0)
                 then StatusFinishedSuccess else StatusError)"
  using assms by (auto simp: execute_def deref_run_def Let_def split_beta)

lemmas ctor_defs = ResizeOperation_ctor_def initialised_def addShrinkJobs_def addMoveJobs_def
  addGrowJobs_def addJob_def resizeAction_def origLength_def newLength_def length_p_def
  action_defs has_def word_sless_alt Let_def

lemmas exec_defs = execute_def shrink_move_grow_def shrink_def move_def grow_def
  setAndFails_def deref_run_def run_def jobEffect_def line_def start_def fail_at_def
  fail_from_def

lemma ctor_shrink_example:
  "ResizeOperation_ctor never_check part_1000_1999 1000 1499 =
     (initialised part_1000_1999 1000 1499)
     \<lparr> m_ShrinkResizeJob := Some (ResizeFileSystemJob 500),
       m_ShrinkSetGeomJob := Some (SetPartGeometryJob 1000 500),
       m_CheckResizedJob := Some CheckFileSystemJob,
       jobs := [(ShrinkResize, ResizeFileSystemJob 500),
                (ShrinkSetGeom, SetPartGeometryJob 1000 500)] \<rparr>"
  by (simp add: ctor_defs part_1000_1999_def never_check_def)

lemma exec_shrink_fs_fails:
  "execute never_check (ResizeOperation_ctor never_check part_1000_1999 1000 1499)
     (start part_1000_1999 (fail_at 0)) =
   Some (False,
         (ResizeOperation_ctor never_check part_1000_1999 1000 1499)\<lparr>status := StatusError\<rparr>,
         \<lparr> partition = part_1000_1999, backend = fail_at 0,
           jobsRun = [(ShrinkResize, ResizeFileSystemJob 500, False)],
           reportLines =
             [''Resize/move failed: Could not resize file system to shrink partition.'',
              ''Resizing/moving partition failed.''],
           reportStatus = Some StatusError \<rparr>)"
  unfolding ctor_shrink_example
  by (simp add: exec_defs initialised_def never_check_def)

lemma ctor_move_example:
  "ResizeOperation_ctor never_check part_1000_1999 500 1499 =
     (initialised part_1000_1999 500 1499)
     \<lparr> m_MoveSetGeomJob := Some (SetPartGeometryJob 500 1000),
       m_MoveFileSystemJob := Some (MoveFileSystemJob 500),
       m_CheckResizedJob := Some CheckFileSystemJob,
       jobs := [(MoveSetGeom, SetPartGeometryJob 500 1000),
                (MoveFileSystem, MoveFileSystemJob 500)] \<rparr>"
  by (simp add: ctor_defs part_1000_1999_def never_check_def)

lemma ctor_grow_example:
  "ResizeOperation_ctor never_check part_1000_1999 1000 2499 =
     (initialised part_1000_1999 1000 2499)
     \<lparr> m_GrowResizeJob := Some (ResizeFileSystemJob 1500),
       m_GrowSetGeomJob := Some (SetPartGeometryJob 1000 1500),
       m_CheckResizedJob := Some CheckFileSystemJob,
       jobs := [(GrowSetGeom, SetPartGeometryJob 1000 1500),
                (GrowResize, ResizeFileSystemJob 1500)] \<rparr>"
  by (simp add: ctor_defs part_1000_1999_def never_check_def)

lemma ctor_shrink_checked_example:
  "ResizeOperation_ctor always_check part_1000_1999 1000 1499 =
     (initialised part_1000_1999 1000 1499)
     \<lparr> m_ShrinkResizeJob := Some (ResizeFileSystemJob 500),
       m_ShrinkSetGeomJob := Some (SetPartGeometryJob 1000 500),
       m_CheckResizedJob := Some CheckFileSystemJob,
       jobs := [(CheckOriginal, CheckFileSystemJob),
                (ShrinkResize, ResizeFileSystemJob 500),
                (ShrinkSetGeom, SetPartGeometryJob 1000 500),
                (CheckResized, CheckFileSystemJob)] \<rparr>"
  by (simp add: ctor_defs part_1000_1999_def always_check_def)

lemma exec_shrink_geom_fails:
  "execute never_check (ResizeOperation_ctor never_check part_1000_1999 1000 1499)
     (start part_1000_1999 (fail_at 1)) =
   Some (False,
         (ResizeOperation_ctor never_check part_1000_1999 1000 1499)\<lparr>status := StatusError\<rparr>,
         \<lparr> partition = part_1000_1999, backend = fail_at 1,
           jobsRun = [(ShrinkResize, ResizeFileSystemJob 500, True),
                      (ShrinkSetGeom, SetPartGeometryJob 1000 500, False)],
           reportLines =
             [''Resize/move failed: Could not shrink partition.'',
              ''Resizing/moving partition failed.''],
           reportStatus = Some StatusError \<rparr>)"
  unfolding ctor_shrink_example
  by (simp add: exec_defs initialised_def never_check_def)

lemma exec_move_fs_fails:
  "execute never_check (ResizeOperation_ctor never_check part_1000_1999 500 1499)
     (start part_1000_1999 (fail_at 1)) =
   Some (False,
         (ResizeOperation_ctor never_check part_1000_1999 500 1499)\<lparr>status := StatusError\<rparr>,
         \<lparr> partition = part_1000_1999, backend = fail_at 1,
           jobsRun = [(MoveSetGeom, SetPartGeometryJob 500 1000, True),
                      (MoveFileSystem, MoveFileSystemJob 500, False),
                      (Temporary, SetPartGeometryJob 1000 1000, True)],
           reportLines =
             [''Moving the filesystem for partition failed. Rolling back.'',
              ''Resizing/moving partition failed.''],
           reportStatus = Some StatusError \<rparr>)"
  unfolding ctor_move_example
  by (simp add: exec_defs initialised_def never_check_def length_p_def part_1000_1999_def)

lemma exec_move_rollback_fails:
  "execute never_check (ResizeOperation_ctor never_check part_1000_1999 500 1499)
     (start part_1000_1999 (fail_from 1)) =
   Some (False,
         (ResizeOperation_ctor never_check part_1000_1999 500 1499)\<lparr>status := StatusError\<rparr>,
         \<lparr> partition = part_1000_1999\<lparr>firstSector := 500, lastSector := 1499\<rparr>,
           backend = fail_from 1,
           jobsRun = [(MoveSetGeom, SetPartGeometryJob 500 1000, True),
                      (MoveFileSystem, MoveFileSystemJob 500, False),
                      (Temporary, SetPartGeometryJob 1000 1000, False)],
           reportLines =
             [''Moving the filesystem for partition failed. Rolling back.'',
              ''Moving back partition to its original position failed.'',
              ''Resizing/moving partition failed.''],
           reportStatus = Some StatusError \<rparr>)"
  unfolding ctor_move_example
  by (simp add: exec_defs initialised_def never_check_def length_p_def part_1000_1999_def)

lemma exec_move_fs_fails_previewed:
  "execute never_check (ResizeOperation_ctor never_check part_1000_1999 500 1499)
     (start (part_1000_1999\<lparr>firstSector := 500, lastSector := 1499\<rparr>) (fail_at 1)) =
   Some (False,
         (ResizeOperation_ctor never_check part_1000_1999 500 1499)\<lparr>status := StatusError\<rparr>,
         \<lparr> partition = part_1000_1999\<lparr>firstSector := 500, lastSector := 1499\<rparr>,
           backend = fail_at 1,
           jobsRun = [(MoveSetGeom, SetPartGeometryJob 500 1000, True),
                      (MoveFileSystem, MoveFileSystemJob 500, False),
                      (Temporary, SetPartGeometryJob 500 1000, True)],
           reportLines =
             [''Moving the filesystem for partition failed. Rolling back.'',
              ''Resizing/moving partition failed.''],
           reportStatus = Some StatusError \<rparr>)"
  unfolding ctor_move_example
  by (simp add: exec_defs initialised_def never_check_def length_p_def part_1000_1999_def)

lemma exec_grow_fs_fails_previewed:
  "execute never_check (ResizeOperation_ctor never_check part_1000_1999 1000 2499)
     (start (part_1000_1999\<lparr>firstSector := 1000, lastSector := 2499\<rparr>) (fail_at 1)) =
   Some (False,
         (ResizeOperation_ctor never_check part_1000_1999 1000 2499)\<lparr>status := StatusError\<rparr>,
         \<lparr> partition = part_1000_1999\<lparr>firstSector := 1000, lastSector := 2499\<rparr>,
           backend = fail_at 1,
           jobsRun = [(GrowSetGeom, SetPartGeometryJob 1000 1500, True),
                      (GrowResize, ResizeFileSystemJob 1500, False),
                      (Temporary, SetPartGeometryJob 1000 1500, True)],
           reportLines =
             [''Resize/move failed: Could not resize the file system on partition'',
              ''Resizing/moving partition failed.''],
           reportStatus = Some StatusError \<rparr>)"
  unfolding ctor_grow_example
  by (simp add: exec_defs initialised_def never_check_def length_p_def part_1000_1999_def)

lemma action_examples:
  "resizeAction (ResizeOperation_ctor never_check part_1000_1999 500 1499) = MoveLeft"
  "resizeAction (ResizeOperation_ctor never_check part_1000_1999 1000 2499) = Grow"
  by (simp_all add: ctor_action resizeAction_def initialised_def origLength_def newLength_def
        part_1000_1999_def action_defs word_sless_alt)

lemma exec_grow_fs_fails:
  "execute never_check (ResizeOperation_ctor never_check part_1000_1999 1000 2499)
     (start part_1000_1999 (fail_at 1)) =
   Some (False,
         (ResizeOperation_ctor never_check part_1000_1999 1000 2499)\<lparr>status := StatusError\<rparr>,
         \<lparr> partition = part_1000_1999, backend = fail_at 1,
           jobsRun = [(GrowSetGeom, SetPartGeometryJob 1000 1500, True),
                      (GrowResize, ResizeFileSystemJob 1500, False),
                      (Temporary, SetPartGeometryJob 1000 1000, True)],
           reportLines =
             [''Resize/move failed: Could not resize the file system on partition'',
              ''Resizing/moving partition failed.''],
           reportStatus = Some StatusError \<rparr>)"
  unfolding ctor_grow_example
  by (simp add: exec_defs initialised_def never_check_def length_p_def part_1000_1999_def)

lemma exec_postcheck_fails:
  "execute always_check (ResizeOperation_ctor always_check part_1000_1999 1000 1499)
     (start part_1000_1999 (fail_at 3)) =
   Some (False,
         (ResizeOperation_ctor always_check part_1000_1999 1000 1499)\<lparr>status := StatusError\<rparr>,
         \<lparr> partition = part_1000_1999\<lparr>firstSector := 1000, lastSector := 1499\<rparr>,
           backend = fail_at 3,
           jobsRun = [(CheckOriginal, CheckFileSystemJob, True),
                      (ShrinkResize, ResizeFileSystemJob 500, True),
                      (ShrinkSetGeom, SetPartGeometryJob 1000 500, True),
                      (CheckResized, CheckFileSystemJob, False)],
           reportLines = [''Checking partition after resize/move failed.''],
           reportStatus = Some StatusError \<rparr>)"
  unfolding ctor_shrink_checked_example
  by (simp add: exec_defs initialised_def always_check_def part_1000_1999_def)

section \<open>Extended partitions\<close>

text \<open>
  What the constructor and \<^verbatim>\<open>execute\<close> do for a partition with the Extended role, for any
  answer of \<^verbatim>\<open>canCheck\<close>: one geometry-set job, no job of the shrink, move and grow phases
  and no check of the resized file system; the check of the original file system is guarded
  by \<^verbatim>\<open>canCheck\<close> alone.
\<close>

lemma extended_jobs_any_canCheck:
  assumes "has (roles p) Extended"
  shows "jobs (ResizeOperation_ctor canCheck p nf nl) =
           (if canCheck p then [(CheckOriginal, CheckFileSystemJob)] else [])
           @ [(MoveExtended, SetPartGeometryJob nf (nl - nf + 1))]
       \<and> m_ShrinkResizeJob (ResizeOperation_ctor canCheck p nf nl) = None
       \<and> m_ShrinkSetGeomJob (ResizeOperation_ctor canCheck p nf nl) = None
       \<and> m_MoveSetGeomJob (ResizeOperation_ctor canCheck p nf nl) = None
       \<and> m_MoveFileSystemJob (ResizeOperation_ctor canCheck p nf nl) = None
       \<and> m_GrowSetGeomJob (ResizeOperation_ctor canCheck p nf nl) = None
       \<and> m_GrowResizeJob (ResizeOperation_ctor canCheck p nf nl) = None
       \<and> m_CheckResizedJob (ResizeOperation_ctor canCheck p nf nl) = None
       \<and> map_option (jobsRun \<circ> snd \<circ> snd)
            (execute canCheck (ResizeOperation_ctor canCheck p nf nl) parent) =
           Some (if canCheck (partition parent)
                 then (CheckOriginal, CheckFileSystemJob, backend parent 0)
                      # (if backend parent 0
                         then [(MoveExtended, SetPartGeometryJob nf (nl - nf + 1),
                                backend parent 1)]
                         else [])
                 else [(MoveExtended, SetPartGeometryJob nf (nl - nf + 1), backend parent 0)])"
proof -
  note F = ctor_fields_extended [OF assms, of canCheck nf nl]
  have "map_option (jobsRun \<circ> snd \<circ> snd)
            (execute canCheck (ResizeOperation_ctor canCheck p nf nl) parent) =
           Some (if canCheck (partition parent)
                 then (CheckOriginal, CheckFileSystemJob, backend parent 0)
                      # (if backend parent 0
                         then [(MoveExtended, SetPartGeometryJob nf (nl - nf + 1),
                                backend parent 1)]
                         else [])
                 else [(MoveExtended, SetPartGeometryJob nf (nl - nf + 1), backend parent 0)])"
    by (rule execute_extended(2) [OF F [THEN conjunct1] F [THEN conjunct2, THEN conjunct1]])
  with F ctor_jobs_extended [OF assms, of canCheck nf nl] show ?thesis by simp
qed

text \<open>
  C3. An extended partition carries no file system, so there is none to check:
  \<^verbatim>\<open>canCheck\<close> is false for it, at construction and when \<^verbatim>\<open>execute\<close> starts (spec,
  section 4.3, rules 1 and 3). For every such partition the job list is exactly one
  geometry-set job, all members for resize-filesystem, move-filesystem and the check of the
  resized file system stay null, and \<^verbatim>\<open>execute\<close> runs that one geometry job and no other
  job; its outcome is the return value and decides the status.
\<close>

theorem extended_jobs:
  assumes "has (roles p) Extended"
    and "\<not> canCheck p"
    and "\<not> canCheck (partition parent)"
  shows "jobs (ResizeOperation_ctor canCheck p nf nl) =
           [(MoveExtended, SetPartGeometryJob nf (nl - nf + 1))]
       \<and> m_ShrinkResizeJob (ResizeOperation_ctor canCheck p nf nl) = None
       \<and> m_ShrinkSetGeomJob (ResizeOperation_ctor canCheck p nf nl) = None
       \<and> m_MoveSetGeomJob (ResizeOperation_ctor canCheck p nf nl) = None
       \<and> m_MoveFileSystemJob (ResizeOperation_ctor canCheck p nf nl) = None
       \<and> m_GrowSetGeomJob (ResizeOperation_ctor canCheck p nf nl) = None
       \<and> m_GrowResizeJob (ResizeOperation_ctor canCheck p nf nl) = None
       \<and> m_CheckResizedJob (ResizeOperation_ctor canCheck p nf nl) = None
       \<and> map_option (jobsRun \<circ> snd \<circ> snd)
            (execute canCheck (ResizeOperation_ctor canCheck p nf nl) parent) =
           Some [(MoveExtended, SetPartGeometryJob nf (nl - nf + 1), backend parent 0)]
       \<and> map_option fst (execute canCheck (ResizeOperation_ctor canCheck p nf nl) parent) =
           Some (backend parent 0)
       \<and> map_option (status \<circ> fst \<circ> snd)
            (execute canCheck (ResizeOperation_ctor canCheck p nf nl) parent) =
           Some (if backend parent 0 then StatusFinishedSuccess else StatusError)"
proof -
  note F = ctor_fields_extended [OF assms(1), of canCheck nf nl]
  note X = execute_extended [OF F [THEN conjunct1] F [THEN conjunct2, THEN conjunct1],
              of canCheck parent]
  from extended_jobs_any_canCheck [OF assms(1), of canCheck nf nl parent] X assms(2,3)
  show ?thesis by simp
qed

theorem extended_jobs_witness:
  "has (roles part_extended) Extended
   \<and> \<not> never_check part_extended
   \<and> \<not> never_check (partition (start part_extended all_succeed))
   \<and> jobs (ResizeOperation_ctor never_check part_extended 500 2999) =
       [(MoveExtended, SetPartGeometryJob 500 2500)]
   \<and> map_option (jobsRun \<circ> snd \<circ> snd)
        (execute never_check (ResizeOperation_ctor never_check part_extended 500 2999)
           (start part_extended all_succeed)) =
       Some [(MoveExtended, SetPartGeometryJob 500 2500, True)]
   \<and> map_option (status \<circ> fst \<circ> snd)
        (execute never_check (ResizeOperation_ctor never_check part_extended 500 2999)
           (start part_extended all_succeed)) = Some StatusFinishedSuccess"
proof -
  have e: "has (roles part_extended) Extended"
    by (simp add: has_def part_extended_def)
  have n: "\<not> never_check part_extended"
    "\<not> never_check (partition (start part_extended all_succeed))"
    by (simp_all add: never_check_def)
  from extended_jobs [OF e n, of 500 2999] e n
  show ?thesis by (simp add: start_def all_succeed_def)
qed

section \<open>Failures during execution\<close>

text \<open>
  C6. For a partition that is not extended: if the shrink's resize-filesystem job fails, it
  is the last job run, no geometry job has run and the partition is unchanged; if the shrink's
  set-geometry job fails after the file system was shrunk, it is the last job run, so there is
  no rollback and no move or grow. Either way \<^verbatim>\<open>execute\<close> returns false with status
  \<^verbatim>\<open>StatusError\<close>.
\<close>

theorem shrink_failure:
  assumes ne: "\<not> has (roles p) Extended"
    and ex: "execute canCheck (ResizeOperation_ctor canCheck p nf nl) parent = Some (rv, op', s')"
  shows "((ShrinkResize, j, False) \<in> set (jobsRun s') \<longrightarrow>
            jobsRun s' =
              (if canCheck (partition parent) then [(CheckOriginal, CheckFileSystemJob, True)]
               else [])
              @ [(ShrinkResize, ResizeFileSystemJob (nl - nf + 1), False)]
            \<and> partition s' = partition parent \<and> \<not> rv \<and> status op' = StatusError)
       \<and> ((ShrinkSetGeom, g, False) \<in> set (jobsRun s') \<longrightarrow>
            jobsRun s' =
              (if canCheck (partition parent) then [(CheckOriginal, CheckFileSystemJob, True)]
               else [])
              @ [(ShrinkResize, ResizeFileSystemJob (nl - nf + 1), True),
                 (ShrinkSetGeom, SetPartGeometryJob (firstSector p) (nl - nf + 1), False)]
            \<and> partition s' = partition parent \<and> \<not> rv \<and> status op' = StatusError)"
proof -
  note P = ctor_fields_plain [OF ne, of canCheck nf nl]
  note fs = ctor_fields_shrink [OF ne, THEN conjunct1] ctor_fields_shrink [OF ne, THEN conjunct2]
  note fm = ctor_fields_move [OF ne, THEN conjunct1] ctor_fields_move [OF ne, THEN conjunct2]
  note fg = ctor_fields_grow [OF ne, THEN conjunct1] ctor_fields_grow [OF ne, THEN conjunct2]
  note So = shrink_ok_trace [OF fs] and Sf = shrink_fail_trace [OF fs]
  note Mo = move_ok_trace [OF fm] and Mf = move_fail_trace [OF fm]
  note Go = grow_ok_trace [OF fg] and Gf = grow_fail_trace [OF fg]
  from P [THEN conjunct1] P [THEN conjunct2, THEN conjunct1]
       P [THEN conjunct2, THEN conjunct2] ex
  show ?thesis
  proof (cases rule: execute_paths)
    case pre_fail
    then show ?thesis by simp
  next
    case (shrink_fail s1)
    from shrink_fail(1,3,5,6,7,8) Sf(2,3) [OF shrink_fail(4)]
    show ?thesis by (auto split: if_splits)
  next
    case (move_fail s1)
    from move_fail(1,8) So(1) [OF move_fail(4)] Mf(2) [OF move_fail(5)]
    show ?thesis by (auto split: if_splits)
  next
    case (grow_fail s1)
    from grow_fail(1,9) So(1) [OF grow_fail(4)] Mo(1) [OF grow_fail(5)] Gf(2) [OF grow_fail(6)]
    show ?thesis by (auto split: if_splits)
  next
    case (with_check s1)
    from with_check(1,9) So(1) [OF with_check(4)] Mo(1) [OF with_check(5)]
      Go(1) [OF with_check(6)]
    show ?thesis by (auto split: if_splits)
  next
    case (without_check s1)
    from without_check(1,10) So(1) [OF without_check(4)] Mo(1) [OF without_check(5)]
      Go(1) [OF without_check(6)]
    show ?thesis by (auto split: if_splits)
  qed
qed

theorem shrink_failure_witness:
  "\<not> has (roles part_1000_1999) Extended
   \<and> execute never_check (ResizeOperation_ctor never_check part_1000_1999 1000 1499)
        (start part_1000_1999 (fail_at 0)) =
      Some (False,
         (ResizeOperation_ctor never_check part_1000_1999 1000 1499)\<lparr>status := StatusError\<rparr>,
         \<lparr> partition = part_1000_1999, backend = fail_at 0,
           jobsRun = [(ShrinkResize, ResizeFileSystemJob 500, False)],
           reportLines =
             [''Resize/move failed: Could not resize file system to shrink partition.'',
              ''Resizing/moving partition failed.''],
           reportStatus = Some StatusError \<rparr>)
   \<and> execute never_check (ResizeOperation_ctor never_check part_1000_1999 1000 1499)
        (start part_1000_1999 (fail_at 1)) =
      Some (False,
         (ResizeOperation_ctor never_check part_1000_1999 1000 1499)\<lparr>status := StatusError\<rparr>,
         \<lparr> partition = part_1000_1999, backend = fail_at 1,
           jobsRun = [(ShrinkResize, ResizeFileSystemJob 500, True),
                      (ShrinkSetGeom, SetPartGeometryJob 1000 500, False)],
           reportLines =
             [''Resize/move failed: Could not shrink partition.'',
              ''Resizing/moving partition failed.''],
           reportStatus = Some StatusError \<rparr>)
   \<and> status ((ResizeOperation_ctor never_check part_1000_1999 1000 1499)
               \<lparr>status := StatusError\<rparr>) = StatusError"
proof -
  have ne: "\<not> has (roles part_1000_1999) Extended"
    by (simp add: has_def part_1000_1999_def)
  from shrink_failure [OF ne exec_shrink_fs_fails, of "ResizeFileSystemJob 500" CheckFileSystemJob]
    shrink_failure [OF ne exec_shrink_geom_fails, of CheckFileSystemJob
      "SetPartGeometryJob 1000 500"]
    ne exec_shrink_fs_fails exec_shrink_geom_fails
  show ?thesis by simp
qed

text \<open>
  C4. For a partition that is not extended, whatever the partition's sectors are when
  \<^verbatim>\<open>execute\<close> starts: if the move's set-geometry job succeeded and its move-filesystem job
  failed, the next and last job run is a geometry-set job with the first sector the partition
  had when the move phase was entered, and that first sector is restored when the job
  succeeds; if the grow's set-geometry job succeeded and its resize-filesystem job failed, the
  next and last job run is a geometry-set job with the length the partition had when the grow
  phase was entered, and that length is restored when the job succeeds. In both cases, and
  whether or not the compensating job succeeds, \<^verbatim>\<open>execute\<close> returns false with status
  \<^verbatim>\<open>StatusError\<close>. The first sector at the entry of the move phase is the one the shrink's
  geometry job set (the first sector at construction) when there was a shrink, otherwise the
  one \<^verbatim>\<open>execute\<close> started with; the length at the entry of the grow phase is the one the
  move's geometry job set (the length at construction) when there was a move, otherwise the
  one \<^verbatim>\<open>execute\<close> started with.
\<close>

theorem rollback_on_failure:
  assumes ne: "\<not> has (roles p) Extended"
    and ex: "execute canCheck (ResizeOperation_ctor canCheck p nf nl) parent = Some (rv, op', s')"
  shows "((MoveSetGeom, g, True) \<in> set (jobsRun s') \<and> (MoveFileSystem, m, False) \<in> set (jobsRun s')
          \<longrightarrow> (\<exists>len b.
                 g = SetPartGeometryJob nf len
                 \<and> jobsRun s' =
                     jobsRun (enter_move canCheck (ResizeOperation_ctor canCheck p nf nl) parent)
                     @ [(MoveSetGeom, g, True), (MoveFileSystem, m, False),
                        (Temporary,
                         SetPartGeometryJob
                           (firstSector (partition
                              (enter_move canCheck (ResizeOperation_ctor canCheck p nf nl) parent)))
                           len, b)]
                 \<and> (b \<longrightarrow> firstSector (partition s') =
                           firstSector (partition
                             (enter_move canCheck (ResizeOperation_ctor canCheck p nf nl) parent))))
              \<and> firstSector (partition
                    (enter_move canCheck (ResizeOperation_ctor canCheck p nf nl) parent)) =
                  (if resizeAction (ResizeOperation_ctor canCheck p nf nl) AND Shrink \<noteq> 0
                   then firstSector p else firstSector (partition parent))
              \<and> status op' = StatusError \<and> rv = False)
       \<and> ((GrowSetGeom, g', True) \<in> set (jobsRun s') \<and> (GrowResize, r, False) \<in> set (jobsRun s')
          \<longrightarrow> (\<exists>b.
                 jobsRun s' =
                   jobsRun (enter_grow canCheck (ResizeOperation_ctor canCheck p nf nl) parent)
                   @ [(GrowSetGeom, g', True), (GrowResize, r, False),
                      (Temporary,
                       SetPartGeometryJob nf
                         (length_p (partition
                            (enter_grow canCheck (ResizeOperation_ctor canCheck p nf nl) parent))),
                       b)]
                 \<and> (b \<longrightarrow> length_p (partition s') =
                           length_p (partition
                             (enter_grow canCheck (ResizeOperation_ctor canCheck p nf nl) parent))))
              \<and> length_p (partition
                    (enter_grow canCheck (ResizeOperation_ctor canCheck p nf nl) parent)) =
                  (if resizeAction (ResizeOperation_ctor canCheck p nf nl) AND MoveLeft \<noteq> 0
                      \<or> resizeAction (ResizeOperation_ctor canCheck p nf nl) AND MoveRight \<noteq> 0
                   then length_p p else length_p (partition parent))
              \<and> status op' = StatusError \<and> rv = False)"
proof -
  note P = ctor_fields_plain [OF ne, of canCheck nf nl]
  note fs = ctor_fields_shrink [OF ne, THEN conjunct1] ctor_fields_shrink [OF ne, THEN conjunct2]
  note fm = ctor_fields_move [OF ne, THEN conjunct1] ctor_fields_move [OF ne, THEN conjunct2]
  note fg = ctor_fields_grow [OF ne, THEN conjunct1] ctor_fields_grow [OF ne, THEN conjunct2]
  note So = shrink_ok_trace [OF fs] and Sf = shrink_fail_trace [OF fs]
  note Mo = move_ok_trace [OF fm] and Mf = move_fail_trace [OF fm]
  note Go = grow_ok_trace [OF fg] and Gf = grow_fail_trace [OF fg]
  note gs = grow_not_shrink [of "initialised p nf nl"]
  from P [THEN conjunct1] P [THEN conjunct2, THEN conjunct1]
       P [THEN conjunct2, THEN conjunct2] ex
  show ?thesis
  proof (cases rule: execute_paths)
    case pre_fail
    then show ?thesis by simp
  next
    case (shrink_fail s1)
    from shrink_fail(1,7) Sf(2) [OF shrink_fail(4)]
    show ?thesis by (auto split: if_splits)
  next
    case (move_fail s1)
    have em: "enter_move canCheck (ResizeOperation_ctor canCheck p nf nl) parent
                = snd (shrink (ResizeOperation_ctor canCheck p nf nl) s1)"
      by (simp add: enter_move_def move_fail(10))
    have first: "firstSector (partition (snd (shrink (ResizeOperation_ctor canCheck p nf nl) s1)))
                   = (if resizeAction (initialised p nf nl) AND Shrink \<noteq> 0
                      then firstSector p else firstSector (partition parent))"
      using So(2) [OF move_fail(4)] move_fail(3) by simp
    have no: "(MoveSetGeom, g, True)
                \<notin> set (jobsRun (snd (shrink (ResizeOperation_ctor canCheck p nf nl) s1)))"
             "(MoveFileSystem, m, False)
                \<notin> set (jobsRun (snd (shrink (ResizeOperation_ctor canCheck p nf nl) s1)))"
             "(GrowResize, r, False)
                \<notin> set (jobsRun (snd (shrink (ResizeOperation_ctor canCheck p nf nl) s1)))"
      using So(1) [OF move_fail(4)] move_fail(1) by (auto split: if_splits)
    from move_fail(6,7,8,9) first no Mf(2,3) [OF move_fail(5)]
    show ?thesis unfolding em ctor_action by (auto split: if_splits)
  next
    case (grow_fail s1)
    have eg: "enter_grow canCheck (ResizeOperation_ctor canCheck p nf nl) parent
                = snd (move (ResizeOperation_ctor canCheck p nf nl)
                        (snd (shrink (ResizeOperation_ctor canCheck p nf nl) s1)))"
      by (simp add: enter_grow_def enter_move_def grow_fail(11))
    have len: "resizeAction (initialised p nf nl) AND Grow \<noteq> 0 \<Longrightarrow>
           length_p (partition (snd (move (ResizeOperation_ctor canCheck p nf nl)
             (snd (shrink (ResizeOperation_ctor canCheck p nf nl) s1))))) =
           (if resizeAction (initialised p nf nl) AND MoveLeft \<noteq> 0
               \<or> resizeAction (initialised p nf nl) AND MoveRight \<noteq> 0
            then length_p p else length_p (partition parent))"
      using Mo(3) [OF grow_fail(5)] So(3) [OF grow_fail(4)] grow_fail(3) gs by simp
    have no: "(MoveFileSystem, m, False)
                \<notin> set (jobsRun (snd (move (ResizeOperation_ctor canCheck p nf nl)
                         (snd (shrink (ResizeOperation_ctor canCheck p nf nl) s1)))))"
             "(GrowSetGeom, g', True)
                \<notin> set (jobsRun (snd (move (ResizeOperation_ctor canCheck p nf nl)
                         (snd (shrink (ResizeOperation_ctor canCheck p nf nl) s1)))))"
             "(GrowResize, r, False)
                \<notin> set (jobsRun (snd (move (ResizeOperation_ctor canCheck p nf nl)
                         (snd (shrink (ResizeOperation_ctor canCheck p nf nl) s1)))))"
      using So(1) [OF grow_fail(4)] Mo(1) [OF grow_fail(5)] grow_fail(1)
      by (auto split: if_splits)
    from grow_fail(7,8,9,10) no Gf [OF grow_fail(6)] len
    show ?thesis unfolding eg ctor_action by (auto split: if_splits)
  next
    case (with_check s1)
    from with_check(1,9) So(1) [OF with_check(4)] Mo(1) [OF with_check(5)]
      Go(1) [OF with_check(6)]
    show ?thesis by (auto split: if_splits)
  next
    case (without_check s1)
    from without_check(1,10) So(1) [OF without_check(4)] Mo(1) [OF without_check(5)]
      Go(1) [OF without_check(6)]
    show ?thesis by (auto split: if_splits)
  qed
qed

theorem rollback_on_failure_witness:
  "\<not> has (roles part_1000_1999) Extended
   \<and> execute never_check (ResizeOperation_ctor never_check part_1000_1999 500 1499)
        (start part_1000_1999 (fail_at 1)) =
      Some (False,
         (ResizeOperation_ctor never_check part_1000_1999 500 1499)\<lparr>status := StatusError\<rparr>,
         \<lparr> partition = part_1000_1999, backend = fail_at 1,
           jobsRun = [(MoveSetGeom, SetPartGeometryJob 500 1000, True),
                      (MoveFileSystem, MoveFileSystemJob 500, False),
                      (Temporary, SetPartGeometryJob 1000 1000, True)],
           reportLines =
             [''Moving the filesystem for partition failed. Rolling back.'',
              ''Resizing/moving partition failed.''],
           reportStatus = Some StatusError \<rparr>)
   \<and> firstSector (partition (enter_move never_check
        (ResizeOperation_ctor never_check part_1000_1999 500 1499)
        (start part_1000_1999 (fail_at 1)))) = 1000
   \<and> execute never_check (ResizeOperation_ctor never_check part_1000_1999 500 1499)
        (start (part_1000_1999\<lparr>firstSector := 500, lastSector := 1499\<rparr>) (fail_at 1)) =
      Some (False,
         (ResizeOperation_ctor never_check part_1000_1999 500 1499)\<lparr>status := StatusError\<rparr>,
         \<lparr> partition = part_1000_1999\<lparr>firstSector := 500, lastSector := 1499\<rparr>,
           backend = fail_at 1,
           jobsRun = [(MoveSetGeom, SetPartGeometryJob 500 1000, True),
                      (MoveFileSystem, MoveFileSystemJob 500, False),
                      (Temporary, SetPartGeometryJob 500 1000, True)],
           reportLines =
             [''Moving the filesystem for partition failed. Rolling back.'',
              ''Resizing/moving partition failed.''],
           reportStatus = Some StatusError \<rparr>)
   \<and> firstSector (partition (enter_move never_check
        (ResizeOperation_ctor never_check part_1000_1999 500 1499)
        (start (part_1000_1999\<lparr>firstSector := 500, lastSector := 1499\<rparr>) (fail_at 1)))) = 500
   \<and> execute never_check (ResizeOperation_ctor never_check part_1000_1999 500 1499)
        (start part_1000_1999 (fail_from 1)) =
      Some (False,
         (ResizeOperation_ctor never_check part_1000_1999 500 1499)\<lparr>status := StatusError\<rparr>,
         \<lparr> partition = part_1000_1999\<lparr>firstSector := 500, lastSector := 1499\<rparr>,
           backend = fail_from 1,
           jobsRun = [(MoveSetGeom, SetPartGeometryJob 500 1000, True),
                      (MoveFileSystem, MoveFileSystemJob 500, False),
                      (Temporary, SetPartGeometryJob 1000 1000, False)],
           reportLines =
             [''Moving the filesystem for partition failed. Rolling back.'',
              ''Moving back partition to its original position failed.'',
              ''Resizing/moving partition failed.''],
           reportStatus = Some StatusError \<rparr>)
   \<and> execute never_check (ResizeOperation_ctor never_check part_1000_1999 1000 2499)
        (start part_1000_1999 (fail_at 1)) =
      Some (False,
         (ResizeOperation_ctor never_check part_1000_1999 1000 2499)\<lparr>status := StatusError\<rparr>,
         \<lparr> partition = part_1000_1999, backend = fail_at 1,
           jobsRun = [(GrowSetGeom, SetPartGeometryJob 1000 1500, True),
                      (GrowResize, ResizeFileSystemJob 1500, False),
                      (Temporary, SetPartGeometryJob 1000 1000, True)],
           reportLines =
             [''Resize/move failed: Could not resize the file system on partition'',
              ''Resizing/moving partition failed.''],
           reportStatus = Some StatusError \<rparr>)
   \<and> length_p (partition (enter_grow never_check
        (ResizeOperation_ctor never_check part_1000_1999 1000 2499)
        (start part_1000_1999 (fail_at 1)))) = 1000
   \<and> execute never_check (ResizeOperation_ctor never_check part_1000_1999 1000 2499)
        (start (part_1000_1999\<lparr>firstSector := 1000, lastSector := 2499\<rparr>) (fail_at 1)) =
      Some (False,
         (ResizeOperation_ctor never_check part_1000_1999 1000 2499)\<lparr>status := StatusError\<rparr>,
         \<lparr> partition = part_1000_1999\<lparr>firstSector := 1000, lastSector := 2499\<rparr>,
           backend = fail_at 1,
           jobsRun = [(GrowSetGeom, SetPartGeometryJob 1000 1500, True),
                      (GrowResize, ResizeFileSystemJob 1500, False),
                      (Temporary, SetPartGeometryJob 1000 1500, True)],
           reportLines =
             [''Resize/move failed: Could not resize the file system on partition'',
              ''Resizing/moving partition failed.''],
           reportStatus = Some StatusError \<rparr>)
   \<and> length_p (partition (enter_grow never_check
        (ResizeOperation_ctor never_check part_1000_1999 1000 2499)
        (start (part_1000_1999\<lparr>firstSector := 1000, lastSector := 2499\<rparr>) (fail_at 1)))) = 1500"
proof -
  have ne: "\<not> has (roles part_1000_1999) Extended"
    by (simp add: has_def part_1000_1999_def)
  from rollback_on_failure [OF ne exec_move_fs_fails,
      of "SetPartGeometryJob 500 1000" "MoveFileSystemJob 500" CheckFileSystemJob
         CheckFileSystemJob]
    rollback_on_failure [OF ne exec_move_fs_fails_previewed,
      of "SetPartGeometryJob 500 1000" "MoveFileSystemJob 500" CheckFileSystemJob
         CheckFileSystemJob]
    rollback_on_failure [OF ne exec_move_rollback_fails,
      of "SetPartGeometryJob 500 1000" "MoveFileSystemJob 500" CheckFileSystemJob
         CheckFileSystemJob]
    rollback_on_failure [OF ne exec_grow_fs_fails,
      of CheckFileSystemJob CheckFileSystemJob "SetPartGeometryJob 1000 1500"
         "ResizeFileSystemJob 1500"]
    rollback_on_failure [OF ne exec_grow_fs_fails_previewed,
      of CheckFileSystemJob CheckFileSystemJob "SetPartGeometryJob 1000 1500"
         "ResizeFileSystemJob 1500"]
    ne exec_move_fs_fails exec_move_fs_fails_previewed exec_move_rollback_fails
    exec_grow_fs_fails exec_grow_fs_fails_previewed
  show ?thesis
    by (simp add: action_examples action_defs start_def length_p_def part_1000_1999_def)
qed

text \<open>
  C2 (as amended). If the check of the resized file system fails, it is the last job run, all
  jobs before it succeeded, and \<^verbatim>\<open>execute\<close> returns false with status \<^verbatim>\<open>StatusError\<close>.
\<close>

theorem postcheck_failure_is_error:
  assumes ex: "execute canCheck (ResizeOperation_ctor canCheck p nf nl) parent = Some (rv, op', s')"
    and fail: "(CheckResized, j, False) \<in> set (jobsRun s')"
  shows "status op' = StatusError \<and> rv = False
         \<and> last (jobsRun s') = (CheckResized, CheckFileSystemJob, False)
         \<and> (\<forall>e \<in> set (butlast (jobsRun s')). snd (snd e) = True)"
proof (cases "has (roles p) Extended")
  case True
  note F = ctor_fields_extended [OF True, of canCheck nf nl]
  from execute_extended(2) [OF F [THEN conjunct1] F [THEN conjunct2, THEN conjunct1],
      of canCheck parent] ex fail
  show ?thesis by (auto split: if_splits)
next
  case ne: False
  note P = ctor_fields_plain [OF ne, of canCheck nf nl]
  note fs = ctor_fields_shrink [OF ne, THEN conjunct1] ctor_fields_shrink [OF ne, THEN conjunct2]
  note fm = ctor_fields_move [OF ne, THEN conjunct1] ctor_fields_move [OF ne, THEN conjunct2]
  note fg = ctor_fields_grow [OF ne, THEN conjunct1] ctor_fields_grow [OF ne, THEN conjunct2]
  note So = shrink_ok_trace [OF fs] and Sf = shrink_fail_trace [OF fs]
  note Mo = move_ok_trace [OF fm] and Mf = move_fail_trace [OF fm]
  note Go = grow_ok_trace [OF fg] and Gf = grow_fail_trace [OF fg]
  from P [THEN conjunct1] P [THEN conjunct2, THEN conjunct1]
       P [THEN conjunct2, THEN conjunct2] ex
  show ?thesis
  proof (cases rule: execute_paths)
    case pre_fail
    with fail show ?thesis by simp
  next
    case (shrink_fail s1)
    from fail shrink_fail(1,7) Sf(2) [OF shrink_fail(4)]
    show ?thesis by (auto split: if_splits)
  next
    case (move_fail s1)
    from fail move_fail(1,8) So(1) [OF move_fail(4)] Mf(2) [OF move_fail(5)]
    show ?thesis by (auto split: if_splits)
  next
    case (grow_fail s1)
    from fail grow_fail(1,9) So(1) [OF grow_fail(4)] Mo(1) [OF grow_fail(5)]
      Gf(2) [OF grow_fail(6)]
    show ?thesis by (auto split: if_splits)
  next
    case (with_check s1)
    from fail with_check(1,8,9) So(1) [OF with_check(4)] Mo(1) [OF with_check(5)]
      Go(1) [OF with_check(6)]
    show ?thesis by (auto split: if_splits simp: butlast_append)
  next
    case (without_check s1)
    from fail without_check(1,10) So(1) [OF without_check(4)] Mo(1) [OF without_check(5)]
      Go(1) [OF without_check(6)]
    show ?thesis by (auto split: if_splits)
  qed
qed

theorem postcheck_failure_is_error_witness:
  "execute always_check (ResizeOperation_ctor always_check part_1000_1999 1000 1499)
     (start part_1000_1999 (fail_at 3)) =
   Some (False,
         (ResizeOperation_ctor always_check part_1000_1999 1000 1499)\<lparr>status := StatusError\<rparr>,
         \<lparr> partition = part_1000_1999\<lparr>firstSector := 1000, lastSector := 1499\<rparr>,
           backend = fail_at 3,
           jobsRun = [(CheckOriginal, CheckFileSystemJob, True),
                      (ShrinkResize, ResizeFileSystemJob 500, True),
                      (ShrinkSetGeom, SetPartGeometryJob 1000 500, True),
                      (CheckResized, CheckFileSystemJob, False)],
           reportLines = [''Checking partition after resize/move failed.''],
           reportStatus = Some StatusError \<rparr>)
   \<and> status ((ResizeOperation_ctor always_check part_1000_1999 1000 1499)
               \<lparr>status := StatusError\<rparr>) = StatusError"
proof -
  have "(CheckResized, CheckFileSystemJob, False)
          \<in> set [(CheckOriginal, CheckFileSystemJob, True),
                  (ShrinkResize, ResizeFileSystemJob 500, True),
                  (ShrinkSetGeom, SetPartGeometryJob 1000 500, True),
                  (CheckResized, CheckFileSystemJob, False)]" by simp
  then have m: "(CheckResized, CheckFileSystemJob, False)
          \<in> set (jobsRun \<lparr> partition = part_1000_1999\<lparr>firstSector := 1000, lastSector := 1499\<rparr>,
           backend = fail_at 3,
           jobsRun = [(CheckOriginal, CheckFileSystemJob, True),
                      (ShrinkResize, ResizeFileSystemJob 500, True),
                      (ShrinkSetGeom, SetPartGeometryJob 1000 500, True),
                      (CheckResized, CheckFileSystemJob, False)],
           reportLines = [''Checking partition after resize/move failed.''],
           reportStatus = Some StatusError \<rparr>)" by simp
  from postcheck_failure_is_error [OF exec_postcheck_fails m] exec_postcheck_fails
  show ?thesis by simp
qed

text \<open>
  The spec's sentence fails on the code: with every phase job succeeding and the post-resize check
  failing, the status is \<^verbatim>\<open>StatusError\<close>, not \<^verbatim>\<open>StatusFinishedWarning\<close>, and the return
  value is false.
\<close>

theorem postcheck_warning_counterexample:
  "map_option fst
     (execute always_check (ResizeOperation_ctor always_check part_1000_1999 1000 1499)
        (start part_1000_1999 (fail_at 3))) = Some False
   \<and> map_option (status \<circ> fst \<circ> snd)
     (execute always_check (ResizeOperation_ctor always_check part_1000_1999 1000 1499)
        (start part_1000_1999 (fail_at 3))) = Some StatusError
   \<and> map_option (jobsRun \<circ> snd \<circ> snd)
     (execute always_check (ResizeOperation_ctor always_check part_1000_1999 1000 1499)
        (start part_1000_1999 (fail_at 3))) =
       Some [(CheckOriginal, CheckFileSystemJob, True),
             (ShrinkResize, ResizeFileSystemJob 500, True),
             (ShrinkSetGeom, SetPartGeometryJob 1000 500, True),
             (CheckResized, CheckFileSystemJob, False)]
   \<and> StatusError \<noteq> StatusFinishedWarning"
  by (simp add: exec_postcheck_fails)

end
